theory Spec2Isabelle
  imports Main "HOL-Library.Char_ord" "HOL-Library.List_Lexorder"
begin

section \<open>Strings\<close>

text \<open>
  JavaScript strings are modelled as \<^typ>\<open>string\<close>, read as the UTF-8 bytes of the
  text.

  \<open>trim\<close> removes, from both ends, every code point that \<open>String.prototype.trim\<close>
  removes: the white space code points U+0009, U+000B, U+000C, U+0020, U+00A0, U+FEFF and
  those of category Zs (U+1680, U+2000 to U+200A, U+202F, U+205F, U+3000), and the line
  terminators U+000A, U+000D, U+2028 and U+2029. \<open>whiteSpace\<close> lists their UTF-8
  encodings. Each encoding starts with a lead byte or is a single ASCII byte, so on
  well-formed text a leading or trailing occurrence of one is that code point.

  \<open>toLowerCase\<close> maps \<open>A\<close>..\<open>Z\<close> to \<open>a\<close>..\<open>z\<close> and leaves every other byte as it
  is. The pipeline lowers a string only to test it against the ASCII patterns \<open>merge\<close> and
  \<open>secondary rate limit\<close>. Outside ASCII only U+212A lowers to an ASCII letter alone
  (\<open>k\<close>, in neither pattern) and only U+0130 to a sequence with one (\<open>i\<close> followed by
  U+0307, which no pattern continues), so the two tests come out as they do in the code.
\<close>

definition startsWith :: "string \<Rightarrow> string \<Rightarrow> bool" where
  "startsWith s p = (take (length p) s = p)"

definition whiteSpace :: "string list" where
  "whiteSpace =
     [[CHR 0x09], [CHR 0x0A], [CHR 0x0B], [CHR 0x0C], [CHR 0x0D], [CHR 0x20],
      [CHR 0xC2, CHR 0xA0],
      [CHR 0xE1, CHR 0x9A, CHR 0x80],
      [CHR 0xE2, CHR 0x80, CHR 0x80], [CHR 0xE2, CHR 0x80, CHR 0x81],
      [CHR 0xE2, CHR 0x80, CHR 0x82], [CHR 0xE2, CHR 0x80, CHR 0x83],
      [CHR 0xE2, CHR 0x80, CHR 0x84], [CHR 0xE2, CHR 0x80, CHR 0x85],
      [CHR 0xE2, CHR 0x80, CHR 0x86], [CHR 0xE2, CHR 0x80, CHR 0x87],
      [CHR 0xE2, CHR 0x80, CHR 0x88], [CHR 0xE2, CHR 0x80, CHR 0x89],
      [CHR 0xE2, CHR 0x80, CHR 0x8A],
      [CHR 0xE2, CHR 0x80, CHR 0xA8], [CHR 0xE2, CHR 0x80, CHR 0xA9],
      [CHR 0xE2, CHR 0x80, CHR 0xAF],
      [CHR 0xE2, CHR 0x81, CHR 0x9F],
      [CHR 0xE3, CHR 0x80, CHR 0x80],
      [CHR 0xEF, CHR 0xBB, CHR 0xBF]]"

text \<open>Removes from the front of \<open>s\<close> every leading occurrence of an entry of \<open>ws\<close>.\<close>

function stripLeading :: "string list \<Rightarrow> string \<Rightarrow> string" where
  "stripLeading ws s =
     (case find (\<lambda>w. w \<noteq> [] \<and> startsWith s w) ws of
        None \<Rightarrow> s
      | Some w \<Rightarrow> stripLeading ws (drop (length w) s))"
  by pat_completeness auto
termination
proof (relation "measure (\<lambda>(ws, s). length s)")
  show "wf (measure (\<lambda>(ws, s). length s))" by simp
next
  fix ws :: "string list" and s w :: string
  assume "find (\<lambda>w. w \<noteq> [] \<and> startsWith s w) ws = Some w"
  then have "w \<noteq> []" and "startsWith s w" by (auto simp: find_Some_iff)
  then have "s \<noteq> []" by (auto simp: startsWith_def)
  with \<open>w \<noteq> []\<close> show "((ws, drop (length w) s), (ws, s)) \<in> measure (\<lambda>(ws, s). length s)"
    by simp
qed

declare stripLeading.simps [simp del]

definition trim :: "string \<Rightarrow> string" where
  "trim s = rev (stripLeading (map rev whiteSpace) (rev (stripLeading whiteSpace s)))"

definition lowerChar :: "char \<Rightarrow> char" where
  "lowerChar c =
     (case map_of (zip ''ABCDEFGHIJKLMNOPQRSTUVWXYZ'' ''abcdefghijklmnopqrstuvwxyz'') c of
        Some l \<Rightarrow> l
      | None \<Rightarrow> c)"

definition toLowerCase :: "string \<Rightarrow> string" where
  "toLowerCase s = map lowerChar s"

fun includes_str :: "string \<Rightarrow> string \<Rightarrow> bool" where
  "includes_str [] p = (p = [])"
| "includes_str (c # cs) p = (startsWith (c # cs) p \<or> includes_str cs p)"

text \<open>\<open>s.split(sep)\<close> for a one-character separator: never the empty array.\<close>

fun splitOn :: "char \<Rightarrow> string \<Rightarrow> string list" where
  "splitOn sep [] = [[]]"
| "splitOn sep (c # cs) =
     (if c = sep then [] # splitOn sep cs
      else (case splitOn sep cs of [] \<Rightarrow> [[c]] | x # xs \<Rightarrow> (c # x) # xs))"

fun join :: "string \<Rightarrow> string list \<Rightarrow> string" where
  "join sep [] = []"
| "join sep [x] = x"
| "join sep (x # y # ys) = x @ sep @ join sep (y # ys)"

definition nl :: char where
  "nl = CHR 0x0A"

text \<open>\<open>a || b\<close> on strings: the empty string is the only falsy string.\<close>

definition orElse :: "string \<Rightarrow> string \<Rightarrow> string" where
  "orElse a b = (if a \<noteq> [] then a else b)"

text \<open>\<open>a ?? b\<close>: the right operand is taken when the left one is null or undefined.\<close>

definition nullish :: "'a option \<Rightarrow> 'a option \<Rightarrow> 'a option" where
  "nullish a b = (case a of Some x \<Rightarrow> Some x | None \<Rightarrow> b)"

text \<open>Decimal rendering of a number, as \<open>String(n)\<close> and template literals do.\<close>

definition digitChar :: "nat \<Rightarrow> char" where
  "digitChar d = ''0123456789'' ! d"

fun showNat :: "nat \<Rightarrow> string" where
  "showNat n = (if n < 10 then [digitChar n] else showNat (n div 10) @ [digitChar (n mod 10)])"

definition showInt :: "int \<Rightarrow> string" where
  "showInt i = (if i < 0 then CHR ''-'' # showNat (nat (- i)) else showNat (nat i))"

section \<open>Errors (src/lib/errors.ts)\<close>

datatype upstream = github | openai

text \<open>
  An error object that is neither an \<open>HttpError\<close> nor an \<open>UpstreamError\<close>: what
  \<open>fetch\<close>, \<open>response.json()\<close>, the date library or the model SDK throw. The fields are
  the ones the handlers inspect.
\<close>

record js_error =
  instanceof_Error :: bool
  instanceof_DOMException :: bool
  err_name :: string
  err_message :: string
  err_status :: "int option"

datatype thrown =
    HttpError int string
  | UpstreamError upstream int string
  | Foreign js_error

section \<open>Data model (src/types/report.ts)\<close>

record CommitAuthor =
  a_login :: "string option"
  a_name :: "string option"

record CommitSummary =
  cs_sha :: string
  cs_date :: string
  cs_author :: CommitAuthor
  cs_message :: string
  cs_summary_line :: string
  cs_is_merge :: bool

record ReportMeta =
  m_commit_count :: nat
  m_model :: string
  m_generated_at :: string
  m_source :: string

record DeployReportResponse =
  r_repo :: string
  r_start :: string
  r_end :: string
  r_commits :: "CommitSummary list"
  r_summary_html :: string
  r_meta :: ReportMeta

section \<open>Commit source client (fetchCommitsFromGitHub)\<close>

text \<open>The raw host record, interface \<open>GitHubCommit\<close>. Optional fields are options.\<close>

record GitPerson =
  p_name :: "string option"
  p_email :: "string option"
  p_date :: "string option"

record GitCommitData =
  c_author :: "GitPerson option"
  c_committer :: "GitPerson option"
  c_message :: "string option"

text \<open>
  \<open>gh_author\<close> is \<open>None\<close> when the field is absent or null, otherwise the optional
  login. Of each entry of \<open>parents\<close> only its presence matters; an entry is represented
  by the parent's identifier.
\<close>

record GitHubCommit =
  gh_sha :: string
  gh_commit :: GitCommitData
  gh_author :: "string option option"
  gh_parents :: "string list option"

text \<open>\<open>message.split("\n")[0]\<close>, the empty string standing in when there is no element.\<close>

definition firstLine :: "string \<Rightarrow> string" where
  "firstLine message = (case splitOn nl message of [] \<Rightarrow> [] | x # xs \<Rightarrow> x)"

definition PER_PAGE :: nat where
  "PER_PAGE = 100"

definition summaryLineOf :: "GitHubCommit \<Rightarrow> string" where
  "summaryLineOf c =
     (let message = (case c_message (gh_commit c) of Some m \<Rightarrow> m | None \<Rightarrow> [])
      in trim (firstLine message))"

definition isMerge :: "GitHubCommit \<Rightarrow> bool" where
  "isMerge c =
     ((case gh_parents c of Some ps \<Rightarrow> length ps > 1 | None \<Rightarrow> False)
      \<or> startsWith (toLowerCase (summaryLineOf c)) ''merge'')"

text \<open>
  The body of the \<open>for\<close> loop over one page. The clock is the sequence of values that
  successive \<open>new Date().toISOString()\<close> calls return; the number of clock reads made so
  far is threaded through. A record flagged as a merge is skipped (\<open>continue\<close>).
\<close>

definition normalizeCommit :: "string \<Rightarrow> GitHubCommit \<Rightarrow> CommitSummary" where
  "normalizeCommit date c =
     \<lparr> cs_sha = gh_sha c,
       cs_date = date,
       cs_author = \<lparr> a_login = (case gh_author c of Some l \<Rightarrow> l | None \<Rightarrow> None),
                     a_name = nullish (case c_author (gh_commit c) of Some a \<Rightarrow> p_name a | None \<Rightarrow> None)
                              (case c_committer (gh_commit c) of Some a \<Rightarrow> p_name a | None \<Rightarrow> None) \<rparr>,
       cs_message = (case c_message (gh_commit c) of Some m \<Rightarrow> m | None \<Rightarrow> []),
       cs_summary_line = summaryLineOf c,
       cs_is_merge = False \<rparr>"

definition recordedDate :: "GitHubCommit \<Rightarrow> string option" where
  "recordedDate c =
     nullish (case c_author (gh_commit c) of Some a \<Rightarrow> p_date a | None \<Rightarrow> None)
             (case c_committer (gh_commit c) of Some a \<Rightarrow> p_date a | None \<Rightarrow> None)"

fun processPage ::
  "(nat \<Rightarrow> string) \<Rightarrow> GitHubCommit list \<Rightarrow> CommitSummary list \<Rightarrow> nat \<Rightarrow> CommitSummary list \<times> nat"
where
  "processPage clock [] normalized n = (normalized, n)"
| "processPage clock (c # cs) normalized n =
     (if isMerge c then processPage clock cs normalized n
      else (case recordedDate c of
              Some d \<Rightarrow> processPage clock cs (normalized @ [normalizeCommit d c]) n
            | None \<Rightarrow> processPage clock cs (normalized @ [normalizeCommit (clock n) c]) (Suc n)))"

text \<open>One request to the host and the outcome of awaiting it.\<close>

record gh_request =
  rq_repo :: string
  rq_token :: string
  rq_since :: string
  rq_until :: string
  rq_per_page :: nat
  rq_page :: nat

text \<open>
  What \<open>response.json()\<close> gives: a rejection, a value that is not an array (of which only
  a string-valued \<open>message\<close> property is ever read), or an array of raw commits.
\<close>

datatype json_body =
    JsonRejected js_error
  | JsonObject "string option"
  | JsonCommits "GitHubCommit list"

datatype page_result =
    FetchRejected js_error
  | Responded int json_body

definition response_ok :: "int \<Rightarrow> bool" where
  "response_ok status = (200 \<le> status \<and> status \<le> 299)"

definition bodyMessage :: "json_body \<Rightarrow> string option" where
  "bodyMessage body = (case body of JsonObject m \<Rightarrow> m | _ \<Rightarrow> None)"

definition notIterable :: js_error where
  "notIterable = \<lparr> instanceof_Error = True, instanceof_DOMException = False,
                   err_name = ''TypeError'', err_message = ''pageCommits is not iterable'',
                   err_status = None \<rparr>"

text \<open>Lines 59 to 87: one awaited response, either thrown or the page's raw commits.\<close>

definition pageOutcome :: "page_result \<Rightarrow> thrown + GitHubCommit list" where
  "pageOutcome r =
     (case r of
        FetchRejected e \<Rightarrow> Inl (Foreign e)
      | Responded status body \<Rightarrow>
          if status = 403 \<or> status = 429 then
            (let message = (case bodyMessage body of Some m \<Rightarrow> m
                            | None \<Rightarrow> ''GitHub API rate limit or permission error.'')
             in if includes_str (toLowerCase message) ''secondary rate limit''
                then Inl (HttpError 429 message)
                else Inl (UpstreamError github status message))
          else if \<not> response_ok status then
            (let message = (case bodyMessage body of Some m \<Rightarrow> m
                            | None \<Rightarrow> ''GitHub API request failed with status '' @ showInt status @ ''.'')
             in Inl (UpstreamError github status message))
          else
            (case body of
               JsonRejected e \<Rightarrow> Inl (Foreign e)
             | JsonObject m \<Rightarrow> Inl (Foreign notIterable)
             | JsonCommits pageCommits \<Rightarrow> Inr pageCommits))"

record FetchGitHubCommitsOptions =
  o_repo :: string
  o_token :: string
  o_since :: string
  o_until :: string

definition requestFor :: "FetchGitHubCommitsOptions \<Rightarrow> nat \<Rightarrow> gh_request" where
  "requestFor opts page =
     \<lparr> rq_repo = o_repo opts, rq_token = o_token opts, rq_since = o_since opts,
       rq_until = o_until opts, rq_per_page = PER_PAGE, rq_page = page \<rparr>"

text \<open>The arguments of one call of the text-generation model.\<close>

record llm_request =
  l_apiKey :: string
  l_model :: string
  l_system :: string
  l_prompt :: string

text \<open>The network calls a run makes, in order.\<close>

datatype call = GitHubRequest gh_request | ModelCall llm_request

text \<open>
  The \<open>while (true)\<close> loop. It ends at the first page that is shorter than
  \<open>PER_PAGE\<close> or at the first failure; against a host that keeps returning full pages it
  does not end, which is the value \<open>None\<close>.
\<close>

partial_function (option) fetchLoop ::
  "(gh_request \<Rightarrow> page_result) \<Rightarrow> (nat \<Rightarrow> string) \<Rightarrow> FetchGitHubCommitsOptions \<Rightarrow> nat \<Rightarrow>
   CommitSummary list \<Rightarrow> call list \<Rightarrow> nat \<Rightarrow> ((thrown + CommitSummary list) \<times> call list \<times> nat) option"
where
  "fetchLoop host clock opts page normalized calls n =
     (case pageOutcome (host (requestFor opts page)) of
        Inl err \<Rightarrow> Some (Inl err, calls @ [GitHubRequest (requestFor opts page)], n)
      | Inr pageCommits \<Rightarrow>
          (case processPage clock pageCommits normalized n of
             (normalized', n') \<Rightarrow>
               if length pageCommits < PER_PAGE
               then Some (Inr normalized', calls @ [GitHubRequest (requestFor opts page)], n')
               else fetchLoop host clock opts (page + 1) normalized'
                      (calls @ [GitHubRequest (requestFor opts page)]) n'))"

declare fetchLoop.simps [code]

definition fetchCommitsFromGitHub ::
  "(gh_request \<Rightarrow> page_result) \<Rightarrow> (nat \<Rightarrow> string) \<Rightarrow> FetchGitHubCommitsOptions \<Rightarrow> nat \<Rightarrow>
   ((thrown + CommitSummary list) \<times> call list \<times> nat) option"
where
  "fetchCommitsFromGitHub host clock opts n = fetchLoop host clock opts 1 [] [] n"

section \<open>The world outside the program\<close>

text \<open>
  Process-wide configuration and the collaborators the pipeline calls: the host, the
  model SDK, the clock and the date library of the runtime.
  \<open>w_toISOString s\<close> is \<open>new Date(s).toISOString()\<close>, \<open>None\<close> when it throws a
  RangeError; \<open>w_getTime s\<close> is \<open>new Date(s).getTime()\<close>, \<open>None\<close> for NaN;
  \<open>w_toLocaleDateString s\<close> is the en-US long rendering of \<open>new Date(s)\<close>;
  \<open>w_aborted\<close> is what \<open>abortController.signal.aborted\<close> reads when the
  \<open>catch\<close> block of the orchestrator runs.
\<close>

record process_env =
  GITHUB_REPO :: "string option"
  GITHUB_TOKEN :: "string option"
  OPENAI_API_KEY :: "string option"
  OPENAI_MODEL :: "string option"
  OPENAI_REALTIME_MODEL :: "string option"

datatype llm_result = TextOk string | TextThrown js_error

record world =
  w_env :: process_env
  w_host :: "gh_request \<Rightarrow> page_result"
  w_generateText :: "llm_request \<Rightarrow> llm_result"
  w_clock :: "nat \<Rightarrow> string"
  w_toISOString :: "string \<Rightarrow> string option"
  w_getTime :: "string \<Rightarrow> int option"
  w_toLocaleDateString :: "string \<Rightarrow> string"
  w_aborted :: bool

definition invalidTime :: js_error where
  "invalidTime = \<lparr> instanceof_Error = True, instanceof_DOMException = False,
                   err_name = ''RangeError'', err_message = ''Invalid time value'',
                   err_status = None \<rparr>"

section \<open>Summary composer (generateSummaryHtml)\<close>

definition extractCommitDetails :: "string \<Rightarrow> string \<times> string" where
  "extractCommitDetails message =
     (case splitOn nl message of
        [] \<Rightarrow> (''Untitled commit'', [])
      | title # rest \<Rightarrow> (orElse (trim title) ''Untitled commit'', trim (join [nl] rest)))"

text \<open>
  \<open>commit.date ? new Date(commit.date).toISOString().slice(0, 10) : fallback\<close>;
  \<open>None\<close> when the date library throws.
\<close>

definition dayKey :: "world \<Rightarrow> string \<Rightarrow> string \<Rightarrow> string option" where
  "dayKey w date fallback =
     (if date \<noteq> [] then map_option (take 10) (w_toISOString w date) else Some fallback)"

text \<open>The separator of a bullet line, with the bytes it has in the source file.\<close>

definition bullet :: string where
  "bullet = [CHR 0xC3, CHR 0xA2, CHR 0xE2, CHR 0x82, CHR 0xAC, CHR 0xC2, CHR 0xA2]"

definition bulletLine :: "world \<Rightarrow> CommitSummary \<Rightarrow> string option" where
  "bulletLine w commit =
     (case extractCommitDetails (cs_message commit) of
        (title, description) \<Rightarrow>
          (case dayKey w (cs_date commit) ''????-??-??'' of
             None \<Rightarrow> None
           | Some date \<Rightarrow>
               Some (date @ '' '' @ bullet @ '' '' @ title @ [nl] @ ''Description: ''
                     @ orElse description ''No additional description provided.'')))"

fun mapM :: "('a \<Rightarrow> 'b option) \<Rightarrow> 'a list \<Rightarrow> 'b list option" where
  "mapM f [] = Some []"
| "mapM f (x # xs) =
     (case f x of None \<Rightarrow> None
      | Some y \<Rightarrow> (case mapM f xs of None \<Rightarrow> None | Some ys \<Rightarrow> Some (y # ys)))"

definition buildBulletList :: "world \<Rightarrow> CommitSummary list \<Rightarrow> string option" where
  "buildBulletList w commits = map_option (join [nl]) (mapM (bulletLine w) commits)"

definition escapeChar :: "char \<Rightarrow> string" where
  "escapeChar c =
     (if c = CHR ''&'' then ''&amp;''
      else if c = CHR ''<'' then ''&lt;''
      else if c = CHR ''>'' then ''&gt;''
      else if c = CHR 0x22 then ''&quot;''
      else if c = CHR 0x27 then ''&#39;''
      else [c])"

definition escapeHtml :: "string \<Rightarrow> string" where
  "escapeHtml input = concat (map escapeChar input)"

text \<open>
  The \<open>reduce\<close> into a \<open>Record<string, CommitSummary[]>\<close>: an association list in
  insertion order, as \<open>Object.entries\<close> enumerates the keys the pipeline produces.
\<close>

fun pushGroup ::
  "string \<Rightarrow> CommitSummary \<Rightarrow> (string \<times> CommitSummary list) list \<Rightarrow> (string \<times> CommitSummary list) list"
where
  "pushGroup d c [] = [(d, [c])]"
| "pushGroup d c ((k, v) # kvs) = (if k = d then (k, v @ [c]) # kvs else (k, v) # pushGroup d c kvs)"

fun groupCommits ::
  "world \<Rightarrow> CommitSummary list \<Rightarrow> (string \<times> CommitSummary list) list \<Rightarrow>
   (string \<times> CommitSummary list) list option"
where
  "groupCommits w [] acc = Some acc"
| "groupCommits w (c # cs) acc =
     (case dayKey w (cs_date c) ''Unknown date'' of
        None \<Rightarrow> None
      | Some d \<Rightarrow> groupCommits w cs (pushGroup d c acc))"

definition listedText :: "CommitSummary \<Rightarrow> string" where
  "listedText commit = orElse (cs_summary_line commit) (orElse (firstLine (cs_message commit)) (cs_sha commit))"

definition renderItem :: "CommitSummary \<Rightarrow> string" where
  "renderItem commit = ''<li><strong>'' @ escapeHtml (listedText commit) @ ''</strong></li>''"

text \<open>The template literal of one section, with its two holes.\<close>

definition articleMarkup :: "string \<Rightarrow> string \<Rightarrow> string" where
  "articleMarkup date items =
     [nl] @ ''        <article>'' @ [nl]
     @ ''          <h3>'' @ date @ ''</h3>'' @ [nl]
     @ ''          <ul>'' @ [nl]
     @ ''            '' @ items @ [nl]
     @ ''          </ul>'' @ [nl]
     @ ''        </article>'' @ [nl]
     @ ''      ''"

definition renderSection :: "string \<times> CommitSummary list \<Rightarrow> string" where
  "renderSection entry =
     (case entry of (date, items) \<Rightarrow> articleMarkup date (concat (map renderItem items)))"

definition wrapSections :: "world \<Rightarrow> string \<Rightarrow> string \<Rightarrow> string \<Rightarrow> string" where
  "wrapSections w start end sections =
     [nl] @ ''    <section>'' @ [nl]
     @ ''      <p>Activity covering '' @ escapeHtml (w_toLocaleDateString w start)
     @ '' to '' @ escapeHtml (w_toLocaleDateString w end) @ ''.</p>'' @ [nl]
     @ ''      '' @ orElse sections ''<p>No non-merge commits were available.</p>'' @ [nl]
     @ ''    </section>'' @ [nl]
     @ ''  ''"

definition buildFallbackSummary ::
  "world \<Rightarrow> string \<Rightarrow> string \<Rightarrow> string \<Rightarrow> CommitSummary list \<Rightarrow> string option"
where
  "buildFallbackSummary w repo start end commits =
     (case groupCommits w commits [] of
        None \<Rightarrow> None
      | Some grouped \<Rightarrow>
          Some (wrapSections w start end (concat (map renderSection (sort_key fst grouped)))))"

definition systemPrompt :: "string \<Rightarrow> string" where
  "systemPrompt repo = join '' ''
     [''You are an internal release reporter for the GitHub repository '' @ repo @ ''.'',
      ''For each commit bullet you receive, render an <article> with:'',
      ''- An <h3> showing the commit title.'',
      ''- A paragraph or short list immediately below that explains what shipped, using both the title and the description text (but do not repeat the full description verbatim).'',
      ''Feel free to group related commits under shared sections if it improves readability, but keep the per-commit headings intact.'',
      ''Highlight impact, avoid assumptions, and never invent work that is not grounded in the provided bullet.'',
      ''Respond with semantic HTML only (section, article, h2-h4, p, ul, li). No inline styles, scripts, or markdown.'']"

definition userPrompt :: "string \<Rightarrow> string \<Rightarrow> string \<Rightarrow> string" where
  "userPrompt start end bulletList =
     join [nl] [''Date range: '' @ start @ '' to '' @ end @ ''.'', ''Commits (chronological):'', bulletList]"

text \<open>The \<open>catch\<close> block of generateSummaryHtml.\<close>

definition summaryCatch :: "thrown \<Rightarrow> thrown" where
  "summaryCatch error =
     (case error of
        HttpError status message \<Rightarrow> HttpError status message
      | UpstreamError u status message \<Rightarrow> UpstreamError openai status message
      | Foreign e \<Rightarrow>
          if instanceof_Error e \<and> err_name e = ''AbortError'' then Foreign e
          else UpstreamError openai
                 (case err_status e of Some status \<Rightarrow> status | None \<Rightarrow> 502)
                 (if instanceof_Error e then err_message e else ''OpenAI text completion failed.''))"

definition generateSummaryHtml ::
  "world \<Rightarrow> string \<Rightarrow> string \<Rightarrow> string \<Rightarrow> string \<Rightarrow> string \<Rightarrow> CommitSummary list \<Rightarrow>
   (thrown + string) \<times> call list"
where
  "generateSummaryHtml w model apiKey repo start end commits =
     (if apiKey = [] then (Inl (HttpError 500 ''OPENAI_API_KEY is not configured.''), [])
      else if model = [] then (Inl (HttpError 500 ''OpenAI model is not configured.''), [])
      else if commits = [] then
        (Inr (''<section><p>No commits found between '' @ start @ '' and '' @ end
              @ '' for '' @ repo @ ''.</p></section>''), [])
      else
        (case buildBulletList w commits of
           None \<Rightarrow> (Inl (Foreign invalidTime), [])
         | Some bulletList \<Rightarrow>
             (let rq = \<lparr> l_apiKey = apiKey, l_model = model, l_system = systemPrompt repo,
                         l_prompt = userPrompt start end bulletList \<rparr>
              in (case w_generateText w rq of
                    TextThrown e \<Rightarrow> (Inl (summaryCatch (Foreign e)), [ModelCall rq])
                  | TextOk text \<Rightarrow>
                      (let raw = trim text
                       in if raw = [] then
                            (case buildFallbackSummary w repo start end commits of
                               None \<Rightarrow> (Inl (summaryCatch (Foreign invalidTime)), [ModelCall rq])
                             | Some html \<Rightarrow> (Inr html, [ModelCall rq]))
                          else if startsWith raw ''<'' then (Inr raw, [ModelCall rq])
                          else (Inr (''<section><p>'' @ escapeHtml raw @ ''</p></section>''),
                                [ModelCall rq]))))))"

section \<open>Report orchestrator (GET)\<close>

definition MAX_WINDOW_DAYS :: int where
  "MAX_WINDOW_DAYS = 30"

definition TOTAL_TIMEOUT_MS :: int where
  "TOTAL_TIMEOUT_MS = 120000"

definition isDigit :: "char \<Rightarrow> bool" where
  "isDigit c = (c \<in> set ''0123456789'')"

text \<open>\<open>DATE_ONLY_REGEX.test(s)\<close> for the pattern \<open>^\\d{4}-\\d{2}-\\d{2}$\<close>.\<close>

definition DATE_ONLY_REGEX_test :: "string \<Rightarrow> bool" where
  "DATE_ONLY_REGEX_test s =
     (length s = 10 \<and> list_all isDigit (take 4 s) \<and> s ! 4 = CHR ''-''
      \<and> list_all isDigit (take 2 (drop 5 s)) \<and> s ! 7 = CHR ''-''
      \<and> list_all isDigit (drop 8 s))"

definition toIsoRange :: "string \<Rightarrow> string \<Rightarrow> string \<times> string" where
  "toIsoRange start end = (start @ ''T00:00:00Z'', end @ ''T23:59:59Z'')"

datatype response_body = MessageBody string | ReportBody DeployReportResponse

datatype http_response = Response int response_body

definition buildErrorResponse :: "string \<Rightarrow> int \<Rightarrow> http_response" where
  "buildErrorResponse message status = Response status (MessageBody message)"

definition normalizeModelName :: "string option \<Rightarrow> string option" where
  "normalizeModelName input =
     (case input of
        None \<Rightarrow> None
      | Some i \<Rightarrow>
          if i = [] then None
          else (let trimmed = trim i
                in if trimmed = [] then None
                   else Some (orElse (last (splitOn CHR ''/'' trimmed)) trimmed)))"

text \<open>Lines 26 to 51: the checks on the two query parameters, in the source's order.\<close>

definition validateWindow :: "world \<Rightarrow> string option \<Rightarrow> string option \<Rightarrow> http_response + string \<times> string" where
  "validateWindow w startParam endParam =
     (case (startParam, endParam) of
        (Some start, Some end) \<Rightarrow>
          if start = [] \<or> end = [] then
            Inl (buildErrorResponse ''Both start and end dates are required.'' 400)
          else if \<not> DATE_ONLY_REGEX_test start \<or> \<not> DATE_ONLY_REGEX_test end then
            Inl (buildErrorResponse ''Dates must be formatted as YYYY-MM-DD.'' 400)
          else
            (case (w_getTime w (start @ ''T00:00:00Z''), w_getTime w (end @ ''T00:00:00Z'')) of
               (Some startDate, Some endDate) \<Rightarrow>
                 if startDate > endDate then
                   Inl (buildErrorResponse ''Start date cannot be after end date.'' 400)
                 else
                   (let daySpan = (endDate - startDate) div (1000 * 60 * 60 * 24) + 1
                    in if daySpan > MAX_WINDOW_DAYS then
                         Inl (buildErrorResponse
                                (''Date span cannot exceed '' @ showInt MAX_WINDOW_DAYS @ '' days.'') 413)
                       else Inr (start, end))
             | _ \<Rightarrow> Inl (buildErrorResponse ''Start and end dates must be valid.'' 400))
      | _ \<Rightarrow> Inl (buildErrorResponse ''Both start and end dates are required.'' 400))"

text \<open>Lines 109 to 129: the \<open>catch\<close> block.\<close>

definition timeoutMessage :: string where
  "timeoutMessage = ''Processing exceeded the 120s timeout.''"

definition catchHandler :: "world \<Rightarrow> thrown \<Rightarrow> http_response" where
  "catchHandler w error =
     (if w_aborted w then buildErrorResponse timeoutMessage 504
      else (case error of
              HttpError status message \<Rightarrow> buildErrorResponse message status
            | UpstreamError u status message \<Rightarrow>
                buildErrorResponse message (if status \<ge> 400 then status else 502)
            | Foreign e \<Rightarrow>
                if instanceof_DOMException e \<and> err_name e = ''AbortError''
                then buildErrorResponse timeoutMessage 504
                else buildErrorResponse
                       (if instanceof_Error e then err_message e
                        else ''Unexpected error while generating deploy report.'') 502))"

definition falsy :: "string option \<Rightarrow> bool" where
  "falsy v = (case v of None \<Rightarrow> True | Some s \<Rightarrow> s = [])"

definition orEmpty :: "string option \<Rightarrow> string" where
  "orEmpty v = (case v of None \<Rightarrow> [] | Some s \<Rightarrow> s)"

definition fetchOptions :: "string \<Rightarrow> string \<Rightarrow> string \<Rightarrow> string \<Rightarrow> FetchGitHubCommitsOptions" where
  "fetchOptions repo token start end =
     \<lparr> o_repo = repo, o_token = token,
       o_since = fst (toIsoRange start end), o_until = snd (toIsoRange start end) \<rparr>"

definition configuredModel :: "world \<Rightarrow> string option" where
  "configuredModel w =
     normalizeModelName (nullish (OPENAI_MODEL (w_env w)) (OPENAI_REALTIME_MODEL (w_env w)))"

definition emptyRangeSentence :: "string \<Rightarrow> string \<Rightarrow> string" where
  "emptyRangeSentence start end =
     ''<section><p>No commits found between '' @ start @ '' and '' @ end @ ''.</p></section>''"

text \<open>
  Lines 65 to 132: the two downstream calls under the deadline, the assembly of the
  report and the \<open>catch\<close> block. The result is the response, the network calls made,
  in order, and the number of clock reads; \<open>None\<close> when the commit retrieval does not
  end. Serialising the assembled report does not throw, so the inner \<open>try\<close> always
  returns the response.
\<close>

definition tryBlock ::
  "world \<Rightarrow> string \<Rightarrow> string \<Rightarrow> string \<Rightarrow> string \<Rightarrow> (http_response \<times> call list \<times> nat) option"
where
  "tryBlock w repo token start end =
     (case fetchCommitsFromGitHub (w_host w) (w_clock w) (fetchOptions repo token start end) 0 of
        None \<Rightarrow> None
      | Some (Inl error, calls, n) \<Rightarrow> Some (catchHandler w error, calls, n)
      | Some (Inr commits, calls, n) \<Rightarrow>
          (case (if commits \<noteq> []
                 then generateSummaryHtml w (orEmpty (configuredModel w))
                        (orEmpty (OPENAI_API_KEY (w_env w))) repo start end commits
                 else (Inr (emptyRangeSentence start end), [])) of
             (Inl error, calls') \<Rightarrow> Some (catchHandler w error, calls @ calls', n)
           | (Inr summaryHtml, calls') \<Rightarrow>
               Some (Response 200 (ReportBody
                       \<lparr> r_repo = repo, r_start = start, r_end = end,
                         r_commits = commits, r_summary_html = summaryHtml,
                         r_meta = \<lparr> m_commit_count = length commits,
                                    m_model = (case configuredModel w of Some m \<Rightarrow> m
                                               | None \<Rightarrow> ''unknown''),
                                    m_generated_at = w_clock w n,
                                    m_source = ''github_live'' \<rparr> \<rparr>),
                     calls @ calls', Suc n)))"

text \<open>The request handler: validation, the configuration checks, then the pipeline.\<close>

definition GET :: "world \<Rightarrow> string option \<Rightarrow> string option \<Rightarrow> (http_response \<times> call list \<times> nat) option" where
  "GET w startParam endParam =
     (case validateWindow w startParam endParam of
        Inl response \<Rightarrow> Some (response, [], 0)
      | Inr (start, end) \<Rightarrow>
          if falsy (GITHUB_REPO (w_env w)) then
            Some (buildErrorResponse ''GITHUB_REPO is not configured.'' 500, [], 0)
          else if falsy (GITHUB_TOKEN (w_env w)) then
            Some (buildErrorResponse ''GITHUB_TOKEN is not configured.'' 500, [], 0)
          else tryBlock w (orEmpty (GITHUB_REPO (w_env w))) (orEmpty (GITHUB_TOKEN (w_env w))) start end)"

section \<open>Notions used to state the properties\<close>

text \<open>A surfaced record is the normalisation of a raw record, whatever date it was given.\<close>

definition normalizes :: "CommitSummary \<Rightarrow> GitHubCommit \<Rightarrow> bool" where
  "normalizes r c = (r = normalizeCommit (cs_date r) c)"

text \<open>The raw records the host returned on the pages a run requested, in retrieval order.\<close>

definition pageRecords :: "(gh_request \<Rightarrow> page_result) \<Rightarrow> call \<Rightarrow> GitHubCommit list" where
  "pageRecords host c =
     (case c of
        GitHubRequest rq \<Rightarrow> (case pageOutcome (host rq) of Inr cs \<Rightarrow> cs | Inl e \<Rightarrow> [])
      | ModelCall q \<Rightarrow> [])"

definition rawRecords :: "(gh_request \<Rightarrow> page_result) \<Rightarrow> call list \<Rightarrow> GitHubCommit list" where
  "rawRecords host calls = concat (map (pageRecords host) calls)"

definition isModelCall :: "call \<Rightarrow> bool" where
  "isModelCall c = (case c of ModelCall q \<Rightarrow> True | GitHubRequest rq \<Rightarrow> False)"

text \<open>
  A request is accepted when it passes the validation of the window and the host
  configuration is present, so that the handler reaches the pipeline.
\<close>

definition accepted ::
  "world \<Rightarrow> string option \<Rightarrow> string option \<Rightarrow> string \<Rightarrow> string \<Rightarrow> string \<Rightarrow> string \<Rightarrow> bool"
where
  "accepted w startParam endParam repo token start end =
     (validateWindow w startParam endParam = Inr (start, end)
      \<and> GITHUB_REPO (w_env w) = Some repo \<and> repo \<noteq> []
      \<and> GITHUB_TOKEN (w_env w) = Some token \<and> token \<noteq> [])"

text \<open>The report of a run that ended with a success response.\<close>

definition successBody :: "(http_response \<times> call list \<times> nat) option \<Rightarrow> DeployReportResponse option" where
  "successBody result =
     (case result of
        Some (Response status (ReportBody body), calls, n) \<Rightarrow> Some body
      | _ \<Rightarrow> None)"

text \<open>The invariant of the grouping: distinct keys, each with the commits of that day.\<close>

definition groupedBy :: "(CommitSummary \<Rightarrow> string) \<Rightarrow> CommitSummary list \<Rightarrow> (string \<times> CommitSummary list) list \<Rightarrow> bool" where
  "groupedBy key cs g =
     (distinct (map fst g) \<and> set (map fst g) = key ` set cs
      \<and> (\<forall>e \<in> set g. snd e = filter (\<lambda>c. key c = fst e) cs))"

text \<open>A run reaches page \<open>p\<close> when every earlier page was retrieved and was full.\<close>

definition reaches :: "(gh_request \<Rightarrow> page_result) \<Rightarrow> FetchGitHubCommitsOptions \<Rightarrow> nat \<Rightarrow> bool" where
  "reaches host opts p =
     list_all (\<lambda>q. case pageOutcome (host (requestFor opts q)) of
                      Inr cs \<Rightarrow> \<not> length cs < PER_PAGE
                    | Inl e \<Rightarrow> False) [1..<p]"

definition requestsUpTo :: "FetchGitHubCommitsOptions \<Rightarrow> nat \<Rightarrow> call list" where
  "requestsUpTo opts p = map (\<lambda>q. GitHubRequest (requestFor opts q)) [1..<Suc p]"

text \<open>The message the client attaches to a response that is not a success.\<close>

definition failureMessage :: "int \<Rightarrow> json_body \<Rightarrow> string" where
  "failureMessage status body =
     (case bodyMessage body of
        Some m \<Rightarrow> m
      | None \<Rightarrow> if status = 403 \<or> status = 429 then ''GitHub API rate limit or permission error.''
                else ''GitHub API request failed with status '' @ showInt status @ ''.'')"

text \<open>Every record that is not flagged as a merge carries an author or committer date.\<close>

definition allDated :: "GitHubCommit list \<Rightarrow> bool" where
  "allDated cs = list_all (\<lambda>c. isMerge c \<or> recordedDate c \<noteq> None) cs"

text \<open>
  The day of a commit: the first ten characters of the UTC rendering of its date, and the
  fixed key \<open>Unknown date\<close> for a commit with an empty date string.
\<close>

definition utcDay :: "world \<Rightarrow> CommitSummary \<Rightarrow> string" where
  "utcDay w commit =
     (if cs_date commit = [] then ''Unknown date''
      else (case w_toISOString w (cs_date commit) of Some rendered \<Rightarrow> take 10 rendered | None \<Rightarrow> []))"

text \<open>
  The five special characters of HTML and the entities that stand for them; a text is
  escaped by replacing every special character with its entity.
\<close>

definition specialEntities :: "(char \<times> string) list" where
  "specialEntities =
     [(CHR ''&'', ''&amp;''), (CHR ''<'', ''&lt;''), (CHR ''>'', ''&gt;''),
      (CHR 0x22, ''&quot;''), (CHR 0x27, ''&#39;'')]"

definition escaped :: "string \<Rightarrow> string" where
  "escaped s = concat (map (\<lambda>c. case map_of specialEntities c of Some e \<Rightarrow> e | None \<Rightarrow> [c]) s)"

definition htmlSpecial :: "char set" where
  "htmlSpecial = {CHR ''<'', CHR ''>'', CHR 0x22, CHR 0x27}"

text \<open>
  The text an item shows for a commit: its summary line; when that is empty, the message up
  to its first line break; when that is empty too, the sha.
\<close>

definition itemText :: "CommitSummary \<Rightarrow> string" where
  "itemText commit =
     (if cs_summary_line commit \<noteq> [] then cs_summary_line commit
      else if takeWhile (\<lambda>c. c \<noteq> CHR 0x0A) (cs_message commit) \<noteq> []
           then takeWhile (\<lambda>c. c \<noteq> CHR 0x0A) (cs_message commit)
      else cs_sha commit)"

text \<open>The description of the date span, from the two dates in long US form.\<close>

definition spanDescription :: "world \<Rightarrow> string \<Rightarrow> string \<Rightarrow> string" where
  "spanDescription w start end =
     ''<p>Activity covering '' @ escaped (w_toLocaleDateString w start) @ '' to ''
     @ escaped (w_toLocaleDateString w end) @ ''.</p>''"

text \<open>
  The section of one day: an article headed by the day, with one list item per commit, each
  showing the escaped text \<open>shown\<close> selects, in strong emphasis.
\<close>

definition dayArticle :: "(CommitSummary \<Rightarrow> string) \<Rightarrow> string \<Rightarrow> CommitSummary list \<Rightarrow> string" where
  "dayArticle shown day commits =
     [CHR 0x0A] @ ''        <article>'' @ [CHR 0x0A]
     @ ''          <h3>'' @ day @ ''</h3>'' @ [CHR 0x0A]
     @ ''          <ul>'' @ [CHR 0x0A]
     @ ''            ''
     @ concat (map (\<lambda>c. ''<li><strong>'' @ escaped (shown c) @ ''</strong></li>'') commits)
     @ [CHR 0x0A]
     @ ''          </ul>'' @ [CHR 0x0A]
     @ ''        </article>'' @ [CHR 0x0A]
     @ ''      ''"

text \<open>
  The fallback for a batch: the description of the date span, then one section per day, the
  days ascending and without repetition, each listing the commits of that day in the order
  of the batch; the whole inside one \<open>section\<close> element.
\<close>

definition fallbackListing ::
  "(CommitSummary \<Rightarrow> string) \<Rightarrow> world \<Rightarrow> string \<Rightarrow> string \<Rightarrow> CommitSummary list \<Rightarrow> string"
where
  "fallbackListing shown w start end commits =
     [CHR 0x0A] @ ''    <section>'' @ [CHR 0x0A]
     @ ''      '' @ spanDescription w start end @ [CHR 0x0A]
     @ ''      ''
     @ concat (map (\<lambda>day. dayArticle shown day (filter (\<lambda>c. utcDay w c = day) commits))
                   (sort (remdups (map (utcDay w) commits))))
     @ [CHR 0x0A]
     @ ''    </section>'' @ [CHR 0x0A]
     @ ''  ''"

section \<open>Concrete worlds\<close>

definition demoEnv :: process_env where
  "demoEnv = \<lparr> GITHUB_REPO = Some ''acme/app'', GITHUB_TOKEN = Some ''t0ken'',
               OPENAI_API_KEY = Some ''sk-demo'', OPENAI_MODEL = Some ''openai/gpt-5'',
               OPENAI_REALTIME_MODEL = None \<rparr>"

definition demoGetTime :: "string \<Rightarrow> int option" where
  "demoGetTime = map_of
     [(''2025-01-01T00:00:00Z'', 1735689600000),
      (''2025-01-07T00:00:00Z'', 1736208000000),
      (''2025-03-01T00:00:00Z'', 1740787200000)]"

definition demoToISOString :: "string \<Rightarrow> string option" where
  "demoToISOString s = (if length s = 20 then Some (take 19 s @ ''.000Z'') else None)"

definition demoLocale :: "string \<Rightarrow> string" where
  "demoLocale s =
     (case map_of [(''2025-01-01'', ''January 1, 2025''), (''2025-01-07'', ''January 7, 2025'')] s of
        Some d \<Rightarrow> d
      | None \<Rightarrow> ''Invalid Date'')"

definition demoClock :: "nat \<Rightarrow> string" where
  "demoClock k = ''2025-02-01T00:00:0'' @ showNat k @ ''Z''"

definition demoWorld ::
  "process_env \<Rightarrow> (gh_request \<Rightarrow> page_result) \<Rightarrow> (llm_request \<Rightarrow> llm_result) \<Rightarrow> (nat \<Rightarrow> string) \<Rightarrow> world"
where
  "demoWorld env host llm clock =
     \<lparr> w_env = env, w_host = host, w_generateText = llm, w_clock = clock,
       w_toISOString = demoToISOString, w_getTime = demoGetTime,
       w_toLocaleDateString = demoLocale, w_aborted = False \<rparr>"

definition demoCommit :: "string \<Rightarrow> string \<Rightarrow> string list \<Rightarrow> string option \<Rightarrow> GitHubCommit" where
  "demoCommit sha message parents date =
     \<lparr> gh_sha = sha,
       gh_commit = \<lparr> c_author = Some \<lparr> p_name = Some ''Ada'', p_email = None, p_date = date \<rparr>,
                     c_committer = None, c_message = Some message \<rparr>,
       gh_author = Some (Some ''ada''),
       gh_parents = Some parents \<rparr>"

definition demoPage :: "GitHubCommit list" where
  "demoPage =
     [demoCommit ''a1'' ''Fix <script> escaping'' [''p0''] (Some ''2025-01-05T10:00:00Z''),
      demoCommit ''b2'' ''Add feature'' [''p1'', ''p2''] (Some ''2025-01-04T09:00:00Z''),
      demoCommit ''c3'' ''  MERGE branch dev'' [''p3''] (Some ''2025-01-03T08:00:00Z''),
      demoCommit ''d4'' ([CHR 0xC2, CHR 0xA0] @ ''Merge pull request #1'') [''p4'']
        (Some ''2025-01-02T07:00:00Z'')]"

definition demoHost :: "gh_request \<Rightarrow> page_result" where
  "demoHost rq = Responded 200 (JsonCommits demoPage)"

definition demoOpts :: FetchGitHubCommitsOptions where
  "demoOpts = fetchOptions ''acme/app'' ''t0ken'' ''2025-01-01'' ''2025-01-07''"

text \<open>A reply of a space, U+00A0 and a line feed.\<close>

definition silentReply :: string where
  "silentReply = [CHR 0x20, CHR 0xC2, CHR 0xA0, CHR 0x0A]"

definition silentModel :: "llm_request \<Rightarrow> llm_result" where
  "silentModel rq = TextOk silentReply"

definition emptyHost :: "gh_request \<Rightarrow> page_result" where
  "emptyHost rq = Responded 200 (JsonCommits [])"

definition noKeyEnv :: process_env where
  "noKeyEnv = demoEnv \<lparr> OPENAI_API_KEY := None \<rparr>"

definition secondaryLimitHost :: "gh_request \<Rightarrow> page_result" where
  "secondaryLimitHost rq = Responded 429 (JsonObject (Some ''You have exceeded a secondary rate limit''))"

definition forbiddenHost :: "gh_request \<Rightarrow> page_result" where
  "forbiddenHost rq = Responded 403 (JsonObject (Some ''Resource not accessible by token''))"

definition notFoundHost :: "gh_request \<Rightarrow> page_result" where
  "notFoundHost rq =
     (if rq_page rq = 1 then Responded 200 (JsonCommits (replicate 100 (demoCommit ''a1'' ''Add feature'' [''p0''] None)))
      else Responded 404 (JsonObject (Some ''Not Found'')))"

text \<open>
  The error the model SDK raises when the provider answers 401: the code is in the SDK's
  \<open>statusCode\<close>, and there is no numeric \<open>status\<close> property.
\<close>

definition unauthorized :: js_error where
  "unauthorized = \<lparr> instanceof_Error = True, instanceof_DOMException = False,
                    err_name = ''AI_APICallError'', err_message = ''Incorrect API key provided'',
                    err_status = None \<rparr>"

definition failingModel :: "llm_request \<Rightarrow> llm_result" where
  "failingModel rq = TextThrown unauthorized"

definition missingRepoHost :: "gh_request \<Rightarrow> page_result" where
  "missingRepoHost rq = Responded 404 (JsonObject (Some ''Not Found''))"

definition undatedHost :: "gh_request \<Rightarrow> page_result" where
  "undatedHost rq = Responded 200 (JsonCommits [demoCommit ''a1'' ''Add feature'' [''p0''] None])"

definition laterClock :: "nat \<Rightarrow> string" where
  "laterClock k = ''2025-02-02T00:00:0'' @ showNat k @ ''Z''"

definition markupModel :: "llm_request \<Rightarrow> llm_result" where
  "markupModel rq = TextOk ''<section><p>Shipped.</p></section>''"

definition demoRequest :: llm_request where
  "demoRequest = \<lparr> l_apiKey = ''sk-demo'', l_model = ''gpt-5'', l_system = systemPrompt ''acme/app'',
                   l_prompt = userPrompt ''2025-01-01'' ''2025-01-07''
                     (''2025-01-05 '' @ bullet @ '' Fix <script> escaping'' @ [nl]
                      @ ''Description: No additional description provided.'') \<rparr>"

definition blankCommit :: GitHubCommit where
  "blankCommit =
     \<lparr> gh_sha = ''f6'',
       gh_commit = \<lparr> c_author = Some \<lparr> p_name = Some ''Ada'', p_email = None,
                                      p_date = Some ''2025-01-05T10:00:00Z'' \<rparr>,
                     c_committer = None, c_message = None \<rparr>,
       gh_author = None,
       gh_parents = Some [''p0''] \<rparr>"

definition blankHost :: "gh_request \<Rightarrow> page_result" where
  "blankHost rq = Responded 200 (JsonCommits [blankCommit])"

definition twoDayPage :: "GitHubCommit list" where
  "twoDayPage =
     [demoCommit ''a1'' ''Fix <script> escaping'' [''p0''] (Some ''2025-01-05T10:00:00Z''),
      demoCommit ''d4'' ''Add feature'' [''p1''] (Some ''2025-01-03T08:00:00Z''),
      demoCommit ''e5'' ''Ship A & B'' [''p2''] (Some ''2025-01-05T07:00:00Z'')]"

definition twoDayHost :: "gh_request \<Rightarrow> page_result" where
  "twoDayHost rq = Responded 200 (JsonCommits twoDayPage)"

definition twoDays :: "CommitSummary list" where
  "twoDays =
     [normalizeCommit ''2025-01-05T10:00:00Z''
        (demoCommit ''a1'' ''Fix <script> escaping'' [''p0''] (Some ''2025-01-05T10:00:00Z'')),
      normalizeCommit ''2025-01-03T08:00:00Z''
        (demoCommit ''d4'' ''Add feature'' [''p1''] (Some ''2025-01-03T08:00:00Z'')),
      normalizeCommit ''2025-01-05T07:00:00Z''
        (demoCommit ''e5'' ''Ship A & B'' [''p2''] (Some ''2025-01-05T07:00:00Z''))]"

definition blankSummary :: CommitSummary where
  "blankSummary = normalizeCommit ''2025-01-05T10:00:00Z'' blankCommit"

text \<open>The fallback for the batch \<open>twoDays\<close> and the week of the demonstration request.\<close>

definition twoDayFallback :: string where
  "twoDayFallback =
     [CHR 0x0A] @ ''    <section>'' @ [CHR 0x0A]
     @ ''      <p>Activity covering January 1, 2025 to January 7, 2025.</p>'' @ [CHR 0x0A]
     @ ''      '' @ [CHR 0x0A]
     @ ''        <article>'' @ [CHR 0x0A]
     @ ''          <h3>2025-01-03</h3>'' @ [CHR 0x0A]
     @ ''          <ul>'' @ [CHR 0x0A]
     @ ''            <li><strong>Add feature</strong></li>'' @ [CHR 0x0A]
     @ ''          </ul>'' @ [CHR 0x0A]
     @ ''        </article>'' @ [CHR 0x0A]
     @ ''      '' @ [CHR 0x0A]
     @ ''        <article>'' @ [CHR 0x0A]
     @ ''          <h3>2025-01-05</h3>'' @ [CHR 0x0A]
     @ ''          <ul>'' @ [CHR 0x0A]
     @ ''            <li><strong>Fix &lt;script&gt; escaping</strong></li><li><strong>Ship A &amp; B</strong></li>''
     @ [CHR 0x0A]
     @ ''          </ul>'' @ [CHR 0x0A]
     @ ''        </article>'' @ [CHR 0x0A]
     @ ''      '' @ [CHR 0x0A]
     @ ''    </section>'' @ [CHR 0x0A]
     @ ''  ''"

section \<open>Properties of the commit source client\<close>

text \<open>The trimmed forms of the strings of the concrete worlds.\<close>

lemma demo_trims:
  "trim [] = []"
  "trim ''Fix <script> escaping'' = ''Fix <script> escaping''"
  "trim ''Add feature'' = ''Add feature''"
  "trim ''Ship A & B'' = ''Ship A & B''"
  "trim ''  MERGE branch dev'' = ''MERGE branch dev''"
  "trim (CHR 0xC2 # CHR 0xA0 # ''Merge pull request #1'') = ''Merge pull request #1''"
  "trim ''openai/gpt-5'' = ''openai/gpt-5''"
  "trim ''<section><p>Shipped.</p></section>'' = ''<section><p>Shipped.</p></section>''"
  "trim [CHR 0x20, CHR 0xC2, CHR 0xA0, CHR 0x0A] = []"
  by code_simp+

lemma splitOn_nonempty: "splitOn sep s \<noteq> []"
  by (induction s) (auto split: list.splits)

lemma normalizes_normalizeCommit: "normalizes (normalizeCommit d c) c"
  by (simp add: normalizes_def normalizeCommit_def)

lemma processPage_result:
  "\<exists>new n'. processPage clock cs normalized n = (normalized @ new, n')
       \<and> list_all2 normalizes new (filter (\<lambda>c. \<not> isMerge c) cs)"
proof (induction cs arbitrary: normalized n)
  case Nil
  then show ?case by simp
next
  case (Cons c cs)
  show ?case
  proof (cases "isMerge c")
    case True
    with Cons.IH [of normalized n] show ?thesis by simp
  next
    case False
    show ?thesis
    proof (cases "recordedDate c")
      case None
      from Cons.IH [of "normalized @ [normalizeCommit (clock n) c]" "Suc n"]
      obtain new n' where
        "processPage clock cs (normalized @ [normalizeCommit (clock n) c]) (Suc n)
           = ((normalized @ [normalizeCommit (clock n) c]) @ new, n')"
        "list_all2 normalizes new (filter (\<lambda>c. \<not> isMerge c) cs)" by blast
      with False None show ?thesis
        by (auto simp: normalizes_normalizeCommit intro!: exI [of _ "normalizeCommit (clock n) c # new"])
    next
      case (Some d)
      from Cons.IH [of "normalized @ [normalizeCommit d c]" n]
      obtain new n' where
        "processPage clock cs (normalized @ [normalizeCommit d c]) n
           = ((normalized @ [normalizeCommit d c]) @ new, n')"
        "list_all2 normalizes new (filter (\<lambda>c. \<not> isMerge c) cs)" by blast
      with False Some show ?thesis
        by (auto simp: normalizes_normalizeCommit intro!: exI [of _ "normalizeCommit d c # new"])
    qed
  qed
qed

lemma fetchLoop_result:
  assumes "fetchLoop host clock opts page normalized calls n = Some y"
  shows "\<forall>batch calls' n'. y = (Inr batch, calls', n') \<longrightarrow>
      (\<exists>newcalls new. calls' = calls @ newcalls \<and> batch = normalized @ new
         \<and> list_all2 normalizes new (filter (\<lambda>c. \<not> isMerge c) (rawRecords host newcalls)))"
proof (rule fetchLoop.raw_induct [where P = "\<lambda>host clock opts page normalized calls n y.
     \<forall>batch calls' n'. y = (Inr batch, calls', n') \<longrightarrow>
      (\<exists>newcalls new. calls' = calls @ newcalls \<and> batch = normalized @ new
         \<and> list_all2 normalizes new (filter (\<lambda>c. \<not> isMerge c) (rawRecords host newcalls)))", OF _ assms],
    goal_cases)
  case (1 f host clock opts page normalized calls n y)
  show ?case
  proof (cases "pageOutcome (host (requestFor opts page))")
    case (Inl err)
    with 1(2) show ?thesis by auto
  next
    case (Inr pageCommits)
    obtain new n1 where pp: "processPage clock pageCommits normalized n = (normalized @ new, n1)"
      and la: "list_all2 normalizes new (filter (\<lambda>c. \<not> isMerge c) pageCommits)"
      using processPage_result by blast
    have pr: "pageRecords host (GitHubRequest (requestFor opts page)) = pageCommits"
      by (simp add: pageRecords_def Inr)
    show ?thesis
    proof (cases "length pageCommits < PER_PAGE")
      case True
      with 1(2) Inr pp have "y = (Inr (normalized @ new), calls @ [GitHubRequest (requestFor opts page)], n1)"
        by simp
      with la pr show ?thesis by (auto simp: rawRecords_def)
    next
      case False
      with 1(2) Inr pp have rec: "f host clock opts (page + 1) (normalized @ new)
            (calls @ [GitHubRequest (requestFor opts page)]) n1 = Some y"
        by simp
      show ?thesis
      proof (intro allI impI)
        fix batch calls' n'
        assume y: "y = (Inr batch, calls', n')"
        from 1(1) [OF rec] y obtain newcalls new' where
          c: "calls' = (calls @ [GitHubRequest (requestFor opts page)]) @ newcalls"
          and b: "batch = (normalized @ new) @ new'"
          and l: "list_all2 normalizes new' (filter (\<lambda>c. \<not> isMerge c) (rawRecords host newcalls))"
          by blast
        have "list_all2 normalizes (new @ new')
            (filter (\<lambda>c. \<not> isMerge c) (rawRecords host (GitHubRequest (requestFor opts page) # newcalls)))"
          using la l pr by (simp add: rawRecords_def list_all2_appendI)
        with c b show "\<exists>newcalls new. calls' = calls @ newcalls \<and> batch = normalized @ new
         \<and> list_all2 normalizes new (filter (\<lambda>c. \<not> isMerge c) (rawRecords host newcalls))"
          by (intro exI [of _ "GitHubRequest (requestFor opts page) # newcalls"] exI [of _ "new @ new'"]) simp
      qed
    qed
  qed
qed

lemma fetch_result:
  assumes "fetchCommitsFromGitHub host clock opts n = Some (Inr batch, calls, n')"
  shows "list_all2 normalizes batch (filter (\<lambda>c. \<not> isMerge c) (rawRecords host calls))"
  using fetchLoop_result [OF assms [unfolded fetchCommitsFromGitHub_def]] by simp

lemma normalizes_not_merge:
  assumes "normalizes r c" and "\<not> isMerge c"
  shows "\<not> cs_is_merge r \<and> \<not> startsWith (toLowerCase (cs_summary_line r)) ''merge''"
proof -
  from assms(1) have "cs_is_merge r = False" and "cs_summary_line r = summaryLineOf c"
    unfolding normalizes_def normalizeCommit_def
    by (metis CommitSummary.select_convs(6), metis CommitSummary.select_convs(5))
  with assms(2) show ?thesis by (simp add: isMerge_def)
qed

lemma normalizes_sha:
  assumes "list_all2 normalizes batch raws"
  shows "map cs_sha batch = map gh_sha raws"
  using assms
proof (induction rule: list_all2_induct)
  case Nil
  then show ?case by simp
next
  case (Cons r batch c raws)
  from Cons.hyps(1) have "cs_sha r = gh_sha c"
    unfolding normalizes_def normalizeCommit_def by (metis CommitSummary.select_convs(1))
  with Cons.IH show ?case by simp
qed

text \<open>
  Claim C1. Whenever the commit fetch returns a batch, the batch is, position by position,
  the normalisation of exactly those raw records of the retrieved pages that are not
  flagged as merges (recorded parent count above one, or trimmed first message line
  starting with "merge" in any letter case): a merge record has no counterpart in the
  batch, and the identifiers in the batch are those of the other records, in retrieval
  order. Every returned record carries \<open>is_merge = false\<close>, and no returned summary
  line starts with "merge".
\<close>

theorem merge_records_never_surface:
  assumes "fetchCommitsFromGitHub host clock opts n = Some (Inr batch, calls, n')"
  shows "list_all2 normalizes batch (filter (\<lambda>c. \<not> isMerge c) (rawRecords host calls))
       \<and> map cs_sha batch = map gh_sha (filter (\<lambda>c. \<not> isMerge c) (rawRecords host calls))
       \<and> (\<forall>r \<in> set batch. cs_is_merge r = False
              \<and> \<not> startsWith (toLowerCase (cs_summary_line r)) ''merge'')"
proof (intro conjI)
  show la: "list_all2 normalizes batch (filter (\<lambda>c. \<not> isMerge c) (rawRecords host calls))"
    by (rule fetch_result [OF assms])
  then show "map cs_sha batch = map gh_sha (filter (\<lambda>c. \<not> isMerge c) (rawRecords host calls))"
    by (rule normalizes_sha)
  show "\<forall>r \<in> set batch. cs_is_merge r = False
              \<and> \<not> startsWith (toLowerCase (cs_summary_line r)) ''merge''"
  proof
    fix r assume "r \<in> set batch"
    then obtain i where i: "i < length batch" "r = batch ! i" by (auto simp: in_set_conv_nth)
    let ?kept = "filter (\<lambda>c. \<not> isMerge c) (rawRecords host calls)"
    from la i have "normalizes r (?kept ! i)" and "i < length ?kept"
      by (auto simp: list_all2_conv_all_nth)
    moreover from \<open>i < length ?kept\<close> have "?kept ! i \<in> set ?kept" by (rule nth_mem)
    then have "\<not> isMerge (?kept ! i)" by simp
    ultimately show "cs_is_merge r = False
              \<and> \<not> startsWith (toLowerCase (cs_summary_line r)) ''merge''"
      using normalizes_not_merge by blast
  qed
qed

lemma demo_fetch: "fetchCommitsFromGitHub demoHost demoClock demoOpts 0 =
   Some (Inr [normalizeCommit ''2025-01-05T10:00:00Z'' (demoCommit ''a1'' ''Fix <script> escaping'' [''p0''] (Some ''2025-01-05T10:00:00Z''))],
         [GitHubRequest (requestFor demoOpts 1)], 0)"
  apply (simp add: fetchCommitsFromGitHub_def)
  apply (subst fetchLoop.simps)
  apply (simp add: demoHost_def pageOutcome_def response_ok_def demoPage_def PER_PAGE_def
     isMerge_def demoCommit_def summaryLineOf_def firstLine_def nl_def demo_trims
    startsWith_def toLowerCase_def lowerChar_def recordedDate_def nullish_def)
  done

lemma demo_rawRecords: "rawRecords demoHost [GitHubRequest (requestFor demoOpts 1)] = demoPage"
  by (simp add: rawRecords_def pageRecords_def demoHost_def pageOutcome_def response_ok_def)

theorem merge_records_never_surface_witness:
  "rawRecords demoHost [GitHubRequest (requestFor demoOpts 1)] = demoPage
   \<and> map isMerge demoPage = [False, True, True, True]
   \<and> list_all2 normalizes
        [normalizeCommit ''2025-01-05T10:00:00Z'' (demoCommit ''a1'' ''Fix <script> escaping'' [''p0''] (Some ''2025-01-05T10:00:00Z''))]
        (filter (\<lambda>c. \<not> isMerge c) demoPage)
   \<and> cs_is_merge (normalizeCommit ''2025-01-05T10:00:00Z'' (demoCommit ''a1'' ''Fix <script> escaping'' [''p0''] (Some ''2025-01-05T10:00:00Z''))) = False"
proof -
  have m: "map isMerge demoPage = [False, True, True, True]"
    by (simp add: demoPage_def
     isMerge_def demoCommit_def summaryLineOf_def firstLine_def nl_def demo_trims
    startsWith_def toLowerCase_def lowerChar_def)
  from merge_records_never_surface [OF demo_fetch] demo_rawRecords m
  show ?thesis by simp
qed

section \<open>Properties of the orchestrator\<close>

lemma GET_accepted:
  assumes "accepted w startParam endParam repo token start end"
  shows "GET w startParam endParam = tryBlock w repo token start end"
  using assms by (simp add: accepted_def GET_def falsy_def orEmpty_def)

lemma normalizeModelName_nonempty:
  assumes "normalizeModelName input = Some m"
  shows "m \<noteq> []"
  using assms
  by (auto simp: normalizeModelName_def Let_def orElse_def split: option.splits if_splits)

lemma validateWindow_rejects:
  assumes "validateWindow w startParam endParam = Inl response"
  shows "\<exists>status message. response = Response status (MessageBody message)"
  using assms
  by (auto simp: validateWindow_def buildErrorResponse_def Let_def
           split: option.splits if_splits)

lemma catchHandler_message:
  "\<exists>status message. catchHandler w error = Response status (MessageBody message)"
  by (cases error) (simp_all add: catchHandler_def buildErrorResponse_def)

lemma tryBlock_success:
  assumes "tryBlock w repo token start end = Some (Response status (ReportBody body), calls, n)"
  shows "\<exists>calls0 calls1 n0.
           fetchCommitsFromGitHub (w_host w) (w_clock w) (fetchOptions repo token start end) 0
             = Some (Inr (r_commits body), calls0, n0)
         \<and> calls = calls0 @ calls1 \<and> n = Suc n0 \<and> status = 200
         \<and> r_repo body = repo \<and> r_start body = start \<and> r_end body = end
         \<and> m_commit_count (r_meta body) = length (r_commits body)
         \<and> m_model (r_meta body) = (case configuredModel w of Some m \<Rightarrow> m | None \<Rightarrow> ''unknown'')
         \<and> m_generated_at (r_meta body) = w_clock w n0
         \<and> m_source (r_meta body) = ''github_live''"
proof (cases "fetchCommitsFromGitHub (w_host w) (w_clock w) (fetchOptions repo token start end) 0")
  case None
  with assms show ?thesis by (simp add: tryBlock_def)
next
  case (Some y)
  obtain res calls0 n0 where y: "y = (res, calls0, n0)" by (cases y)
  show ?thesis
  proof (cases res)
    case (Inl error)
    with assms Some y catchHandler_message [of w error] show ?thesis
      by (auto simp: tryBlock_def)
  next
    case (Inr commits)
    let ?s = "if commits \<noteq> []
                 then generateSummaryHtml w (orEmpty (configuredModel w))
                        (orEmpty (OPENAI_API_KEY (w_env w))) repo start end commits
                 else (Inr (emptyRangeSentence start end), [])"
    obtain out calls1 where s: "?s = (out, calls1)" by (cases ?s)
    show ?thesis
    proof (cases out)
      case (Inl error)
      with assms Some y Inr s catchHandler_message [of w error] show ?thesis
        by (auto simp: tryBlock_def)
    next
      case out: (Inr summaryHtml)
      with assms Some y Inr s show ?thesis
        by (auto simp: tryBlock_def)
    qed
  qed
qed

lemma GET_success:
  assumes "GET w startParam endParam = Some (Response status (ReportBody body), calls, n)"
  shows "\<exists>token. accepted w startParam endParam (r_repo body) token (r_start body) (r_end body)
           \<and> tryBlock w (r_repo body) token (r_start body) (r_end body)
                = Some (Response status (ReportBody body), calls, n)"
proof (cases "validateWindow w startParam endParam")
  case (Inl response)
  with assms validateWindow_rejects [OF Inl] show ?thesis by (auto simp: GET_def)
next
  case (Inr window)
  obtain start "end" where window: "window = (start, end)" by (cases window)
  from assms Inr window have repo: "\<not> falsy (GITHUB_REPO (w_env w))"
    and token: "\<not> falsy (GITHUB_TOKEN (w_env w))"
    by (auto simp: GET_def buildErrorResponse_def split: if_splits)
  from repo obtain repo' where r: "GITHUB_REPO (w_env w) = Some repo'" "repo' \<noteq> []"
    by (auto simp: falsy_def split: option.splits)
  from token obtain token' where t: "GITHUB_TOKEN (w_env w) = Some token'" "token' \<noteq> []"
    by (auto simp: falsy_def split: option.splits)
  have acc: "accepted w startParam endParam repo' token' start end"
    using Inr window r t by (simp add: accepted_def)
  from assms have tb: "tryBlock w repo' token' start end = Some (Response status (ReportBody body), calls, n)"
    by (simp add: GET_accepted [OF acc])
  from tryBlock_success [OF tb] have "r_repo body = repo'" "r_start body = start" "r_end body = end"
    by auto
  with acc tb show ?thesis by auto
qed

text \<open>
  Claim C2. A request whose two dates have the calendar-date shape and parse, and whose
  inclusive day span exceeds 30, is answered with status 413 and the oversized-request
  message, and the run makes no network call at all.
\<close>

theorem oversized_window_rejected:
  assumes "DATE_ONLY_REGEX_test start" and "DATE_ONLY_REGEX_test end"
    and "w_getTime w (start @ ''T00:00:00Z'') = Some startDate"
    and "w_getTime w (end @ ''T00:00:00Z'') = Some endDate"
    and "(endDate - startDate) div (1000 * 60 * 60 * 24) + 1 > 30"
  shows "GET w (Some start) (Some end)
         = Some (Response 413 (MessageBody ''Date span cannot exceed 30 days.''), [], 0)"
proof -
  from assms(1,2) have ne: "start \<noteq> []" "end \<noteq> []"
    by (auto simp: DATE_ONLY_REGEX_test_def)
  from assms(5) have le: "\<not> startDate > endDate" by auto
  have "showInt MAX_WINDOW_DAYS = ''30''"
    by (simp add: showInt_def MAX_WINDOW_DAYS_def digitChar_def)
  with assms ne le have "validateWindow w (Some start) (Some end)
      = Inl (Response 413 (MessageBody ''Date span cannot exceed 30 days.''))"
    by (simp add: validateWindow_def buildErrorResponse_def MAX_WINDOW_DAYS_def)
  then show ?thesis by (simp add: GET_def)
qed

theorem oversized_window_rejected_witness:
  "DATE_ONLY_REGEX_test ''2025-01-01'' \<and> DATE_ONLY_REGEX_test ''2025-03-01''
   \<and> (1740787200000 - 1735689600000) div (1000 * 60 * 60 * 24) + 1 = (60 :: int)
   \<and> GET (demoWorld demoEnv demoHost silentModel demoClock) (Some ''2025-01-01'') (Some ''2025-03-01'')
       = Some (Response 413 (MessageBody ''Date span cannot exceed 30 days.''), [], 0)"
proof -
  have r: "DATE_ONLY_REGEX_test ''2025-01-01''" "DATE_ONLY_REGEX_test ''2025-03-01''"
    by (simp_all add: DATE_ONLY_REGEX_test_def isDigit_def)
  have s: "w_getTime (demoWorld demoEnv demoHost silentModel demoClock) (''2025-01-01'' @ ''T00:00:00Z'')
            = Some 1735689600000"
    by (simp add: demoWorld_def demoGetTime_def)
  have e: "w_getTime (demoWorld demoEnv demoHost silentModel demoClock) (''2025-03-01'' @ ''T00:00:00Z'')
            = Some 1740787200000"
    by (simp add: demoWorld_def demoGetTime_def)
  have d: "(1740787200000 - 1735689600000) div (1000 * 60 * 60 * 24) + 1 = (60 :: int)" by simp
  have "(1740787200000 - 1735689600000) div (1000 * 60 * 60 * 24) + 1 > (30 :: int)" by simp
  from oversized_window_rejected [OF r s e this] r d show ?thesis by simp
qed

section \<open>Network calls of a run\<close>

lemma fetchLoop_calls:
  assumes "fetchLoop host clock opts page normalized calls n = Some y"
  shows "filter isModelCall (fst (snd y)) = filter isModelCall calls"
proof (rule fetchLoop.raw_induct [where P = "\<lambda>host clock opts page normalized calls n y.
     filter isModelCall (fst (snd y)) = filter isModelCall calls", OF _ assms], goal_cases)
  case (1 f host clock opts page normalized calls n y)
  show ?case
  proof (cases "pageOutcome (host (requestFor opts page))")
    case (Inl err)
    with 1(2) show ?thesis by (auto simp: isModelCall_def)
  next
    case (Inr pageCommits)
    obtain normalized' n1 where pp: "processPage clock pageCommits normalized n = (normalized', n1)"
      by (cases "processPage clock pageCommits normalized n")
    show ?thesis
    proof (cases "length pageCommits < PER_PAGE")
      case True
      with 1(2) Inr pp show ?thesis by (auto simp: isModelCall_def)
    next
      case False
      with 1(2) Inr pp have "f host clock opts (page + 1) normalized'
            (calls @ [GitHubRequest (requestFor opts page)]) n1 = Some y"
        by simp
      from 1(1) [OF this] show ?thesis by (simp add: isModelCall_def)
    qed
  qed
qed

lemma fetch_calls:
  assumes "fetchCommitsFromGitHub host clock opts n = Some (result, calls, n')"
  shows "filter isModelCall calls = []"
  using fetchLoop_calls [OF assms [unfolded fetchCommitsFromGitHub_def]] by simp

text \<open>
  Claim C5. When the commit retrieval of an accepted request succeeds with an empty
  batch, the response is the report whose \<open>summary_html\<close> is the fixed empty-range
  sentence naming \<open>start\<close> and \<open>end\<close>, and the run contains no call of the model.
\<close>

theorem empty_batch_skips_model:
  assumes "accepted w startParam endParam repo token start end"
    and "fetchCommitsFromGitHub (w_host w) (w_clock w) (fetchOptions repo token start end) 0
           = Some (Inr [], calls, n)"
  shows "GET w startParam endParam
         = Some (Response 200 (ReportBody
                   \<lparr> r_repo = repo, r_start = start, r_end = end, r_commits = [],
                     r_summary_html = ''<section><p>No commits found between '' @ start
                                      @ '' and '' @ end @ ''.</p></section>'',
                     r_meta = \<lparr> m_commit_count = 0,
                                m_model = (case configuredModel w of Some m \<Rightarrow> m | None \<Rightarrow> ''unknown''),
                                m_generated_at = w_clock w n,
                                m_source = ''github_live'' \<rparr> \<rparr>), calls, Suc n)
       \<and> filter isModelCall calls = []"
  using assms(2) fetch_calls [OF assms(2)]
  by (simp add: GET_accepted [OF assms(1)] tryBlock_def emptyRangeSentence_def)

lemma demo_accepted:
  "accepted (demoWorld env host llm clock) (Some ''2025-01-01'') (Some ''2025-01-07'')
       (orEmpty (GITHUB_REPO env)) (orEmpty (GITHUB_TOKEN env)) ''2025-01-01'' ''2025-01-07''
   = (\<not> falsy (GITHUB_REPO env) \<and> \<not> falsy (GITHUB_TOKEN env))"
  by (auto simp add: accepted_def validateWindow_def demoWorld_def demoGetTime_def
        DATE_ONLY_REGEX_test_def isDigit_def MAX_WINDOW_DAYS_def falsy_def orEmpty_def
        split: option.splits)

lemma empty_fetch:
  "fetchCommitsFromGitHub emptyHost clock opts 0 = Some (Inr [], [GitHubRequest (requestFor opts 1)], 0)"
  apply (simp add: fetchCommitsFromGitHub_def)
  apply (subst fetchLoop.simps)
  apply (simp add: emptyHost_def pageOutcome_def response_ok_def PER_PAGE_def)
  done

theorem empty_batch_skips_model_witness:
  "GET (demoWorld demoEnv emptyHost silentModel demoClock) (Some ''2025-01-01'') (Some ''2025-01-07'')
   = Some (Response 200 (ReportBody
             \<lparr> r_repo = ''acme/app'', r_start = ''2025-01-01'', r_end = ''2025-01-07'', r_commits = [],
               r_summary_html = ''<section><p>No commits found between 2025-01-01 and 2025-01-07.</p></section>'',
               r_meta = \<lparr> m_commit_count = 0, m_model = ''gpt-5'',
                          m_generated_at = ''2025-02-01T00:00:00Z'', m_source = ''github_live'' \<rparr> \<rparr>),
           [GitHubRequest (requestFor demoOpts 1)], 1)"
proof -
  let ?w = "demoWorld demoEnv emptyHost silentModel demoClock"
  have a: "accepted ?w (Some ''2025-01-01'') (Some ''2025-01-07'') ''acme/app'' ''t0ken''
             ''2025-01-01'' ''2025-01-07''"
    using demo_accepted [of demoEnv emptyHost silentModel demoClock]
    by (simp add: demoEnv_def falsy_def orEmpty_def)
  have f: "fetchCommitsFromGitHub (w_host ?w) (w_clock ?w)
             (fetchOptions ''acme/app'' ''t0ken'' ''2025-01-01'' ''2025-01-07'') 0
           = Some (Inr [], [GitHubRequest (requestFor demoOpts 1)], 0)"
    by (simp add: demoWorld_def empty_fetch demoOpts_def)
  have m: "configuredModel ?w = Some ''gpt-5''"
    by (simp add: configuredModel_def demoWorld_def demoEnv_def nullish_def normalizeModelName_def
          demo_trims orElse_def)
  from empty_batch_skips_model [OF a f] m show ?thesis
    by (simp add: demoWorld_def demoClock_def digitChar_def)
qed

section \<open>The report of a successful run\<close>

text \<open>
  Claim C10, as the code has it. Every success response has status 200, carries the fixed
  source marker \<open>github_live\<close>, and its \<open>generated_at\<close> is the value of the
  orchestrator's own clock read at the assembly of the report, which is the last clock
  read of the run.
\<close>

theorem success_meta:
  assumes "GET w startParam endParam = Some (Response status (ReportBody body), calls, n)"
  shows "status = 200 \<and> m_source (r_meta body) = ''github_live''
       \<and> 0 < n \<and> m_generated_at (r_meta body) = w_clock w (n - 1)"
proof -
  from GET_success [OF assms] obtain token where
    "tryBlock w (r_repo body) token (r_start body) (r_end body)
       = Some (Response status (ReportBody body), calls, n)" by blast
  from tryBlock_success [OF this] show ?thesis by auto
qed

lemma demo_empty_run:
  "GET (demoWorld demoEnv emptyHost silentModel demoClock) (Some ''2025-01-01'') (Some ''2025-01-07'')
   = Some (Response 200 (ReportBody
             \<lparr> r_repo = ''acme/app'', r_start = ''2025-01-01'', r_end = ''2025-01-07'', r_commits = [],
               r_summary_html = emptyRangeSentence ''2025-01-01'' ''2025-01-07'',
               r_meta = \<lparr> m_commit_count = 0, m_model = ''gpt-5'',
                          m_generated_at = demoClock 0, m_source = ''github_live'' \<rparr> \<rparr>),
           [GitHubRequest (requestFor demoOpts 1)], 1)"
proof -
  let ?w = "demoWorld demoEnv emptyHost silentModel demoClock"
  have a: "accepted ?w (Some ''2025-01-01'') (Some ''2025-01-07'') ''acme/app'' ''t0ken''
             ''2025-01-01'' ''2025-01-07''"
    using demo_accepted [of demoEnv emptyHost silentModel demoClock]
    by (simp add: demoEnv_def falsy_def orEmpty_def)
  have m: "configuredModel ?w = Some ''gpt-5''"
    by (simp add: configuredModel_def demoWorld_def demoEnv_def nullish_def normalizeModelName_def
          demo_trims orElse_def)
  have f: "fetchCommitsFromGitHub (w_host ?w) (w_clock ?w)
             (fetchOptions ''acme/app'' ''t0ken'' ''2025-01-01'' ''2025-01-07'') 0
           = Some (Inr [], [GitHubRequest (requestFor demoOpts 1)], 0)"
    by (simp add: demoWorld_def empty_fetch demoOpts_def)
  show ?thesis
    unfolding GET_accepted [OF a] tryBlock_def f using m by (simp add: demoWorld_def)
qed

theorem success_meta_witness:
  "GET (demoWorld demoEnv emptyHost silentModel demoClock) (Some ''2025-01-01'') (Some ''2025-01-07'')
   = Some (Response 200 (ReportBody
             \<lparr> r_repo = ''acme/app'', r_start = ''2025-01-01'', r_end = ''2025-01-07'', r_commits = [],
               r_summary_html = emptyRangeSentence ''2025-01-01'' ''2025-01-07'',
               r_meta = \<lparr> m_commit_count = 0, m_model = ''gpt-5'',
                          m_generated_at = demoClock 0, m_source = ''github_live'' \<rparr> \<rparr>),
           [GitHubRequest (requestFor demoOpts 1)], 1)
   \<and> demoClock 0 = w_clock (demoWorld demoEnv emptyHost silentModel demoClock) (1 - 1)"
  using success_meta [OF demo_empty_run] demo_empty_run by simp

text \<open>
  The marker is not the string \<open>live\<close>: a run against a host with no commits in the
  window succeeds, and the source of its report differs from \<open>live\<close>.
\<close>

theorem source_marker_is_not_live:
  "successBody (GET (demoWorld demoEnv emptyHost silentModel demoClock)
                  (Some ''2025-01-01'') (Some ''2025-01-07'')) \<noteq> None
   \<and> map_option (m_source \<circ> r_meta)
        (successBody (GET (demoWorld demoEnv emptyHost silentModel demoClock)
                        (Some ''2025-01-01'') (Some ''2025-01-07''))) \<noteq> Some ''live''"
  by (simp add: demo_empty_run successBody_def)

section \<open>Missing model configuration\<close>

text \<open>
  Without a model credential, a request whose window holds no commits is still answered
  with status 200, not with the configuration error.
\<close>

theorem missing_model_key_still_succeeds:
  "OPENAI_API_KEY (w_env (demoWorld noKeyEnv emptyHost silentModel demoClock)) = None
   \<and> GET (demoWorld noKeyEnv emptyHost silentModel demoClock) (Some ''2025-01-01'') (Some ''2025-01-07'')
   = Some (Response 200 (ReportBody
             \<lparr> r_repo = ''acme/app'', r_start = ''2025-01-01'', r_end = ''2025-01-07'', r_commits = [],
               r_summary_html = ''<section><p>No commits found between 2025-01-01 and 2025-01-07.</p></section>'',
               r_meta = \<lparr> m_commit_count = 0, m_model = ''gpt-5'',
                          m_generated_at = ''2025-02-01T00:00:00Z'', m_source = ''github_live'' \<rparr> \<rparr>),
           [GitHubRequest (requestFor demoOpts 1)], 1)"
proof -
  let ?w = "demoWorld noKeyEnv emptyHost silentModel demoClock"
  have a: "accepted ?w (Some ''2025-01-01'') (Some ''2025-01-07'') ''acme/app'' ''t0ken''
             ''2025-01-01'' ''2025-01-07''"
    using demo_accepted [of noKeyEnv emptyHost silentModel demoClock]
    by (simp add: noKeyEnv_def demoEnv_def falsy_def orEmpty_def)
  have m: "configuredModel ?w = Some ''gpt-5''"
    by (simp add: configuredModel_def demoWorld_def noKeyEnv_def demoEnv_def nullish_def normalizeModelName_def
          demo_trims orElse_def)
  have f: "fetchCommitsFromGitHub (w_host ?w) (w_clock ?w)
             (fetchOptions ''acme/app'' ''t0ken'' ''2025-01-01'' ''2025-01-07'') 0
           = Some (Inr [], [GitHubRequest (requestFor demoOpts 1)], 0)"
    by (simp add: demoWorld_def empty_fetch demoOpts_def)
  have k: "OPENAI_API_KEY (w_env ?w) = None"
    by (simp add: demoWorld_def noKeyEnv_def)
  show ?thesis
    unfolding GET_accepted [OF a] tryBlock_def f using m k
    by (simp add: demoWorld_def emptyRangeSentence_def demoClock_def digitChar_def)
qed

text \<open>
  Claim C7, as the code has it. The model configuration is checked by the summary
  composer, which the orchestrator calls only for a non-empty batch. For an accepted
  request whose retrieval succeeds with a non-empty batch, a missing model credential or
  model identifier yields status 500 with the configuration message, unless the deadline
  has fired, and the run contains no call of the model.
\<close>

theorem missing_model_configuration:
  assumes "accepted w startParam endParam repo token start end"
    and "fetchCommitsFromGitHub (w_host w) (w_clock w) (fetchOptions repo token start end) 0
           = Some (Inr commits, calls, n)"
    and "commits \<noteq> []"
    and "falsy (OPENAI_API_KEY (w_env w)) \<or> configuredModel w = None"
    and "\<not> w_aborted w"
  shows "GET w startParam endParam
         = Some (Response 500 (MessageBody
                   (if falsy (OPENAI_API_KEY (w_env w)) then ''OPENAI_API_KEY is not configured.''
                    else ''OpenAI model is not configured.'')), calls, n)
       \<and> filter isModelCall calls = []"
proof -
  have "generateSummaryHtml w (orEmpty (configuredModel w)) (orEmpty (OPENAI_API_KEY (w_env w)))
          repo start end commits
        = (Inl (HttpError 500 (if falsy (OPENAI_API_KEY (w_env w)) then ''OPENAI_API_KEY is not configured.''
                    else ''OpenAI model is not configured.'')), [])"
    using assms(4) by (auto simp: generateSummaryHtml_def falsy_def orEmpty_def split: option.splits)
  with assms(2,3,5) fetch_calls [OF assms(2)] show ?thesis
    by (simp add: GET_accepted [OF assms(1)] tryBlock_def catchHandler_def buildErrorResponse_def)
qed

lemma demo_run_fetch:
  "fetchCommitsFromGitHub (w_host (demoWorld env demoHost llm demoClock)) (w_clock (demoWorld env demoHost llm demoClock))
             (fetchOptions ''acme/app'' ''t0ken'' ''2025-01-01'' ''2025-01-07'') 0
   = Some (Inr [normalizeCommit ''2025-01-05T10:00:00Z'' (demoCommit ''a1'' ''Fix <script> escaping'' [''p0''] (Some ''2025-01-05T10:00:00Z''))],
         [GitHubRequest (requestFor demoOpts 1)], 0)"
  using demo_fetch by (simp add: demoWorld_def demoOpts_def)

theorem missing_model_configuration_witness:
  "falsy (OPENAI_API_KEY (w_env (demoWorld noKeyEnv demoHost silentModel demoClock)))
   \<and> GET (demoWorld noKeyEnv demoHost silentModel demoClock) (Some ''2025-01-01'') (Some ''2025-01-07'')
     = Some (Response 500 (MessageBody ''OPENAI_API_KEY is not configured.''),
             [GitHubRequest (requestFor demoOpts 1)], 0)"
proof -
  let ?w = "demoWorld noKeyEnv demoHost silentModel demoClock"
  have a: "accepted ?w (Some ''2025-01-01'') (Some ''2025-01-07'') ''acme/app'' ''t0ken''
             ''2025-01-01'' ''2025-01-07''"
    using demo_accepted [of noKeyEnv demoHost silentModel demoClock]
    by (simp add: noKeyEnv_def demoEnv_def falsy_def orEmpty_def)
  have k: "falsy (OPENAI_API_KEY (w_env ?w))"
    by (simp add: demoWorld_def noKeyEnv_def falsy_def)
  then have k': "falsy (OPENAI_API_KEY (w_env ?w)) \<or> configuredModel ?w = None" ..
  have ab: "\<not> w_aborted ?w" by (simp add: demoWorld_def)
  have ne: "[normalizeCommit ''2025-01-05T10:00:00Z'' (demoCommit ''a1'' ''Fix <script> escaping'' [''p0''] (Some ''2025-01-05T10:00:00Z''))] \<noteq> []"
    by simp
  from missing_model_configuration [OF a demo_run_fetch ne k' ab] k show ?thesis by simp
qed

section \<open>Failures of the host and of the model\<close>

lemma fetchLoop_fails_at:
  assumes "\<forall>q. page \<le> q \<and> q < p \<longrightarrow>
             (case pageOutcome (host (requestFor opts q)) of
                Inr cs \<Rightarrow> \<not> length cs < PER_PAGE | Inl e \<Rightarrow> False)"
    and "pageOutcome (host (requestFor opts p)) = Inl err"
    and "page \<le> p"
  shows "\<exists>n'. fetchLoop host clock opts page normalized calls n
           = Some (Inl err, calls @ map (\<lambda>q. GitHubRequest (requestFor opts q)) [page..<Suc p], n')"
  using assms
proof (induction "p - page" arbitrary: page normalized calls n)
  case 0
  then have "page = p" by simp
  with 0(3) show ?case
    by (subst fetchLoop.simps) simp
next
  case (Suc k)
  then have lt: "page < p" by simp
  with Suc.prems(1) obtain cs where cs: "pageOutcome (host (requestFor opts page)) = Inr cs"
    "\<not> length cs < PER_PAGE"
    by (fastforce split: sum.splits)
  obtain normalized' n1 where pp: "processPage clock cs normalized n = (normalized', n1)"
    by (cases "processPage clock cs normalized n")
  have "k = p - (page + 1)" using Suc.hyps(2) by simp
  moreover have "\<forall>q. page + 1 \<le> q \<and> q < p \<longrightarrow>
             (case pageOutcome (host (requestFor opts q)) of
                Inr cs \<Rightarrow> \<not> length cs < PER_PAGE | Inl e \<Rightarrow> False)"
    using Suc.prems(1) by simp
  moreover have "page + 1 \<le> p" using lt by simp
  ultimately obtain n' where
    "fetchLoop host clock opts (page + 1) normalized' (calls @ [GitHubRequest (requestFor opts page)]) n1
       = Some (Inl err, (calls @ [GitHubRequest (requestFor opts page)])
                 @ map (\<lambda>q. GitHubRequest (requestFor opts q)) [page + 1..<Suc p], n')"
    using Suc.hyps(1) [of "page + 1" normalized' "calls @ [GitHubRequest (requestFor opts page)]" n1]
      Suc.prems(2) by blast
  moreover have "[page..<Suc p] = page # [page + 1..<Suc p]"
    using lt by (simp add: upt_conv_Cons)
  ultimately show ?case
    using cs pp by (subst fetchLoop.simps) simp
qed

lemma fetch_fails_at:
  assumes "reaches host opts p" and "1 \<le> p"
    and "pageOutcome (host (requestFor opts p)) = Inl err"
  shows "\<exists>n. fetchCommitsFromGitHub host clock opts 0 = Some (Inl err, requestsUpTo opts p, n)"
proof -
  from assms(1) have "\<forall>q. 1 \<le> q \<and> q < p \<longrightarrow>
             (case pageOutcome (host (requestFor opts q)) of
                Inr cs \<Rightarrow> \<not> length cs < PER_PAGE | Inl e \<Rightarrow> False)"
    by (simp add: reaches_def list_all_iff)
  from fetchLoop_fails_at [OF this assms(3) assms(2), of clock "[]" "[]" 0]
  show ?thesis by (simp add: fetchCommitsFromGitHub_def requestsUpTo_def)
qed

lemma GET_fetch_failure:
  assumes "accepted w startParam endParam repo token start end"
    and "reaches (w_host w) (fetchOptions repo token start end) p" and "1 \<le> p"
    and "pageOutcome (w_host w (requestFor (fetchOptions repo token start end) p)) = Inl err"
  shows "\<exists>n. fetchCommitsFromGitHub (w_host w) (w_clock w) (fetchOptions repo token start end) 0
               = Some (Inl err, requestsUpTo (fetchOptions repo token start end) p, n)
           \<and> GET w startParam endParam
               = Some (catchHandler w err, requestsUpTo (fetchOptions repo token start end) p, n)"
proof -
  from fetch_fails_at [OF assms(2,3,4), of "w_clock w"] obtain n where
    "fetchCommitsFromGitHub (w_host w) (w_clock w) (fetchOptions repo token start end) 0
       = Some (Inl err, requestsUpTo (fetchOptions repo token start end) p, n)" ..
  then show ?thesis by (auto simp: GET_accepted [OF assms(1)] tryBlock_def)
qed

text \<open>
  Claim C3. Let the host answer the request for some page that the run reaches with
  status 403 or 429, and let the deadline not have fired. If the message of the body (the
  fixed default text when the body has none) contains "secondary rate limit" in any
  letter case, the client raises the retry-later error and the pipeline answers with
  status 429 and that message verbatim; otherwise the client raises an upstream failure
  carrying the host's status and message, and the pipeline answers with that status and
  message.
\<close>

theorem rate_limit_responses:
  assumes "accepted w startParam endParam repo token start end"
    and "reaches (w_host w) (fetchOptions repo token start end) p" and "1 \<le> p"
    and "w_host w (requestFor (fetchOptions repo token start end) p) = Responded status body"
    and "status = 403 \<or> status = 429"
    and "message = (case bodyMessage body of Some m \<Rightarrow> m
                    | None \<Rightarrow> ''GitHub API rate limit or permission error.'')"
    and "\<not> w_aborted w"
  shows "\<exists>n. fetchCommitsFromGitHub (w_host w) (w_clock w) (fetchOptions repo token start end) 0
               = Some (Inl (if includes_str (toLowerCase message) ''secondary rate limit''
                            then HttpError 429 message
                            else UpstreamError github status message),
                       requestsUpTo (fetchOptions repo token start end) p, n)
           \<and> GET w startParam endParam
               = Some (Response (if includes_str (toLowerCase message) ''secondary rate limit''
                                 then 429 else status) (MessageBody message),
                       requestsUpTo (fetchOptions repo token start end) p, n)"
proof -
  let ?err = "if includes_str (toLowerCase message) ''secondary rate limit''
              then HttpError 429 message else UpstreamError github status message"
  have "pageOutcome (w_host w (requestFor (fetchOptions repo token start end) p)) = Inl ?err"
    using assms(4,5,6) by (auto simp: pageOutcome_def)
  from GET_fetch_failure [OF assms(1,2,3) this] obtain n where
    f: "fetchCommitsFromGitHub (w_host w) (w_clock w) (fetchOptions repo token start end) 0
         = Some (Inl ?err, requestsUpTo (fetchOptions repo token start end) p, n)"
    and g: "GET w startParam endParam
         = Some (catchHandler w ?err, requestsUpTo (fetchOptions repo token start end) p, n)"
    by blast
  have "catchHandler w ?err
        = Response (if includes_str (toLowerCase message) ''secondary rate limit'' then 429 else status)
            (MessageBody message)"
    using assms(5,7) by (auto simp: catchHandler_def buildErrorResponse_def)
  with f g show ?thesis by auto
qed

lemma demo_accepted_env:
  "accepted (demoWorld demoEnv host llm clock) (Some ''2025-01-01'') (Some ''2025-01-07'')
       ''acme/app'' ''t0ken'' ''2025-01-01'' ''2025-01-07''"
  using demo_accepted [of demoEnv host llm clock] by (simp add: demoEnv_def falsy_def orEmpty_def)

theorem rate_limit_responses_witness:
  "(\<exists>n. GET (demoWorld demoEnv secondaryLimitHost silentModel demoClock)
           (Some ''2025-01-01'') (Some ''2025-01-07'')
         = Some (Response 429 (MessageBody ''You have exceeded a secondary rate limit''),
                 [GitHubRequest (requestFor demoOpts 1)], n))
   \<and> (\<exists>n. GET (demoWorld demoEnv forbiddenHost silentModel demoClock)
           (Some ''2025-01-01'') (Some ''2025-01-07'')
         = Some (Response 403 (MessageBody ''Resource not accessible by token''),
                 [GitHubRequest (requestFor demoOpts 1)], n))"
proof
  let ?w = "demoWorld demoEnv secondaryLimitHost silentModel demoClock"
  let ?m = "''You have exceeded a secondary rate limit''"
  have r: "reaches (w_host ?w) (fetchOptions ''acme/app'' ''t0ken'' ''2025-01-01'' ''2025-01-07'') 1"
    by (simp add: reaches_def)
  have h: "w_host ?w (requestFor (fetchOptions ''acme/app'' ''t0ken'' ''2025-01-01'' ''2025-01-07'') 1)
           = Responded 429 (JsonObject (Some ?m))"
    by (simp add: demoWorld_def secondaryLimitHost_def)
  have m: "?m = (case bodyMessage (JsonObject (Some ?m)) of Some m \<Rightarrow> m
                    | None \<Rightarrow> ''GitHub API rate limit or permission error.'')"
    by (simp add: bodyMessage_def)
  have s: "includes_str (toLowerCase ?m) ''secondary rate limit''"
    by (simp add: startsWith_def toLowerCase_def lowerChar_def)
  have ab: "\<not> w_aborted ?w" by (simp add: demoWorld_def)
  have st: "(429::int) = 403 \<or> (429::int) = 429" by simp
  from rate_limit_responses [OF demo_accepted_env r _ h st m ab] s
  show "\<exists>n. GET ?w (Some ''2025-01-01'') (Some ''2025-01-07'')
         = Some (Response 429 (MessageBody ?m), [GitHubRequest (requestFor demoOpts 1)], n)"
    by (auto simp: requestsUpTo_def demoOpts_def)
next
  let ?w = "demoWorld demoEnv forbiddenHost silentModel demoClock"
  let ?m = "''Resource not accessible by token''"
  have r: "reaches (w_host ?w) (fetchOptions ''acme/app'' ''t0ken'' ''2025-01-01'' ''2025-01-07'') 1"
    by (simp add: reaches_def)
  have h: "w_host ?w (requestFor (fetchOptions ''acme/app'' ''t0ken'' ''2025-01-01'' ''2025-01-07'') 1)
           = Responded 403 (JsonObject (Some ?m))"
    by (simp add: demoWorld_def forbiddenHost_def)
  have m: "?m = (case bodyMessage (JsonObject (Some ?m)) of Some m \<Rightarrow> m
                    | None \<Rightarrow> ''GitHub API rate limit or permission error.'')"
    by (simp add: bodyMessage_def)
  have s: "\<not> includes_str (toLowerCase ?m) ''secondary rate limit''"
    by (simp add: startsWith_def toLowerCase_def lowerChar_def)
  have ab: "\<not> w_aborted ?w" by (simp add: demoWorld_def)
  have st: "(403::int) = 403 \<or> (403::int) = 429" by simp
  from rate_limit_responses [OF demo_accepted_env r _ h st m ab] s
  show "\<exists>n. GET ?w (Some ''2025-01-01'') (Some ''2025-01-07'')
         = Some (Response 403 (MessageBody ?m), [GitHubRequest (requestFor demoOpts 1)], n)"
    by (auto simp: requestsUpTo_def demoOpts_def)
qed

section \<open>The status of an upstream failure\<close>

lemma pageOutcome_failure:
  assumes "\<not> response_ok status"
    and "\<not> ((status = 403 \<or> status = 429)
            \<and> includes_str (toLowerCase (failureMessage status body)) ''secondary rate limit'')"
  shows "pageOutcome (Responded status body)
         = Inl (UpstreamError github status (failureMessage status body))"
  using assms by (auto simp: pageOutcome_def failureMessage_def split: option.splits)

lemma model_failure:
  assumes "commits \<noteq> []" and "apiKey \<noteq> []" and "model \<noteq> []"
    and "buildBulletList w commits = Some bulletList"
    and "w_generateText w \<lparr> l_apiKey = apiKey, l_model = model, l_system = systemPrompt repo,
                            l_prompt = userPrompt start end bulletList \<rparr> = TextThrown e"
  shows "generateSummaryHtml w model apiKey repo start end commits
         = (Inl (summaryCatch (Foreign e)),
            [ModelCall \<lparr> l_apiKey = apiKey, l_model = model, l_system = systemPrompt repo,
                         l_prompt = userPrompt start end bulletList \<rparr>])"
  using assms by (simp add: generateSummaryHtml_def)

text \<open>
  Claim C4, as the code has it. Let the request be accepted and the deadline not have
  fired. A host response that is not a success and is not the secondary-rate-limit case
  is surfaced with the host's own status when that status is at least 400 and with 502
  otherwise. An error of the model call that is not a cancellation and has no numeric
  \<open>status\<close> property, as is the case for the errors the model SDK raises (they carry the
  provider's code as \<open>statusCode\<close>), is surfaced with status 502.
\<close>

theorem upstream_failure_status:
  assumes "accepted w startParam endParam repo token start end"
    and "\<not> w_aborted w"
  shows "(reaches (w_host w) (fetchOptions repo token start end) p \<and> 1 \<le> p
          \<and> w_host w (requestFor (fetchOptions repo token start end) p) = Responded status body
          \<and> \<not> response_ok status
          \<and> \<not> ((status = 403 \<or> status = 429)
                \<and> includes_str (toLowerCase (failureMessage status body)) ''secondary rate limit'')
          \<longrightarrow> (\<exists>n. GET w startParam endParam
                      = Some (Response (if status \<ge> 400 then status else 502)
                                (MessageBody (failureMessage status body)),
                              requestsUpTo (fetchOptions repo token start end) p, n)))
       \<and> (fetchCommitsFromGitHub (w_host w) (w_clock w) (fetchOptions repo token start end) 0
             = Some (Inr commits, calls, n)
          \<and> commits \<noteq> []
          \<and> OPENAI_API_KEY (w_env w) = Some apiKey \<and> apiKey \<noteq> []
          \<and> configuredModel w = Some model
          \<and> buildBulletList w commits = Some bulletList
          \<and> rq = \<lparr> l_apiKey = apiKey, l_model = model, l_system = systemPrompt repo,
                    l_prompt = userPrompt start end bulletList \<rparr>
          \<and> w_generateText w rq = TextThrown e
          \<and> \<not> (instanceof_Error e \<and> err_name e = ''AbortError'')
          \<and> err_status e = None
          \<longrightarrow> GET w startParam endParam
                = Some (Response 502
                          (MessageBody (if instanceof_Error e then err_message e
                                        else ''OpenAI text completion failed.'')),
                        calls @ [ModelCall rq], n))"
proof (intro conjI impI)
  assume h: "reaches (w_host w) (fetchOptions repo token start end) p \<and> 1 \<le> p
          \<and> w_host w (requestFor (fetchOptions repo token start end) p) = Responded status body
          \<and> \<not> response_ok status
          \<and> \<not> ((status = 403 \<or> status = 429)
                \<and> includes_str (toLowerCase (failureMessage status body)) ''secondary rate limit'')"
  then have "pageOutcome (w_host w (requestFor (fetchOptions repo token start end) p))
             = Inl (UpstreamError github status (failureMessage status body))"
    using pageOutcome_failure [of status body] by simp
  from GET_fetch_failure [OF assms(1) _ _ this] h obtain n where
    "GET w startParam endParam
       = Some (catchHandler w (UpstreamError github status (failureMessage status body)),
               requestsUpTo (fetchOptions repo token start end) p, n)" by blast
  with assms(2) show "\<exists>n. GET w startParam endParam
                      = Some (Response (if status \<ge> 400 then status else 502)
                                (MessageBody (failureMessage status body)),
                              requestsUpTo (fetchOptions repo token start end) p, n)"
    by (simp add: catchHandler_def buildErrorResponse_def)
next
  assume h: "fetchCommitsFromGitHub (w_host w) (w_clock w) (fetchOptions repo token start end) 0
             = Some (Inr commits, calls, n)
          \<and> commits \<noteq> []
          \<and> OPENAI_API_KEY (w_env w) = Some apiKey \<and> apiKey \<noteq> []
          \<and> configuredModel w = Some model
          \<and> buildBulletList w commits = Some bulletList
          \<and> rq = \<lparr> l_apiKey = apiKey, l_model = model, l_system = systemPrompt repo,
                    l_prompt = userPrompt start end bulletList \<rparr>
          \<and> w_generateText w rq = TextThrown e
          \<and> \<not> (instanceof_Error e \<and> err_name e = ''AbortError'')
          \<and> err_status e = None"
  then have rq: "rq = \<lparr> l_apiKey = apiKey, l_model = model, l_system = systemPrompt repo,
                    l_prompt = userPrompt start end bulletList \<rparr>"
    and t: "w_generateText w rq = TextThrown e"
    and ne: "commits \<noteq> []" "apiKey \<noteq> []"
    and cm: "configuredModel w = Some model"
    and bl: "buildBulletList w commits = Some bulletList"
    by blast+
  from cm have nm: "model \<noteq> []"
    by (auto simp: configuredModel_def dest: normalizeModelName_nonempty)
  have g: "generateSummaryHtml w model apiKey repo start end commits
         = (Inl (summaryCatch (Foreign e)), [ModelCall rq])"
    unfolding rq by (rule model_failure [OF ne nm bl t [unfolded rq]])
  have c: "catchHandler w (summaryCatch (Foreign e))
           = Response 502
               (MessageBody (if instanceof_Error e then err_message e
                             else ''OpenAI text completion failed.''))"
    using h assms(2)
    by (auto simp: summaryCatch_def catchHandler_def buildErrorResponse_def split: option.splits)
  from h g c show "GET w startParam endParam
                = Some (Response 502
                          (MessageBody (if instanceof_Error e then err_message e
                                        else ''OpenAI text completion failed.'')),
                        calls @ [ModelCall rq], n)"
    by (simp add: GET_accepted [OF assms(1)] tryBlock_def orEmpty_def)
qed

text \<open>
  A host that answers 404 is surfaced to the client with status 404, not 502.
\<close>

theorem host_404_is_surfaced_as_404:
  "GET (demoWorld demoEnv missingRepoHost silentModel demoClock) (Some ''2025-01-01'') (Some ''2025-01-07'')
   = Some (Response 404 (MessageBody ''Not Found''), [GitHubRequest (requestFor demoOpts 1)], 0)"
proof -
  let ?w = "demoWorld demoEnv missingRepoHost silentModel demoClock"
  have f: "fetchCommitsFromGitHub (w_host ?w) (w_clock ?w)
             (fetchOptions ''acme/app'' ''t0ken'' ''2025-01-01'' ''2025-01-07'') 0
           = Some (Inl (UpstreamError github 404 ''Not Found''), [GitHubRequest (requestFor demoOpts 1)], 0)"
    apply (simp add: fetchCommitsFromGitHub_def)
    apply (subst fetchLoop.simps)
    apply (simp add: demoWorld_def missingRepoHost_def pageOutcome_def response_ok_def bodyMessage_def
             demoOpts_def)
    done
  show ?thesis
    unfolding GET_accepted [OF demo_accepted_env] tryBlock_def f
    by (simp add: catchHandler_def demoWorld_def buildErrorResponse_def)
qed

lemma demo_bullets:
  "buildBulletList (demoWorld env host llm clock)
     [normalizeCommit ''2025-01-05T10:00:00Z'' (demoCommit ''a1'' ''Fix <script> escaping'' [''p0''] (Some ''2025-01-05T10:00:00Z''))]
   = Some (''2025-01-05 '' @ bullet @ '' Fix <script> escaping'' @ [nl]
           @ ''Description: No additional description provided.'')"
  by (simp add: buildBulletList_def bulletLine_def extractCommitDetails_def normalizeCommit_def
        demoCommit_def nl_def demo_trims orElse_def dayKey_def demoWorld_def
        demoToISOString_def)

theorem upstream_failure_status_witness:
  "(\<exists>n. GET (demoWorld demoEnv notFoundHost silentModel demoClock)
           (Some ''2025-01-01'') (Some ''2025-01-07'')
         = Some (Response 404 (MessageBody ''Not Found''), requestsUpTo demoOpts 2, n))
   \<and> map_option fst (GET (demoWorld demoEnv demoHost failingModel demoClock)
                        (Some ''2025-01-01'') (Some ''2025-01-07''))
       = Some (Response 502 (MessageBody ''Incorrect API key provided''))"
proof
  let ?w = "demoWorld demoEnv notFoundHost silentModel demoClock"
  let ?o = "fetchOptions ''acme/app'' ''t0ken'' ''2025-01-01'' ''2025-01-07''"
  have ab: "\<not> w_aborted ?w" by (simp add: demoWorld_def)
  have "reaches (w_host ?w) ?o 2 \<and> 1 \<le> (2::nat)
          \<and> w_host ?w (requestFor ?o 2) = Responded 404 (JsonObject (Some ''Not Found''))
          \<and> \<not> response_ok 404
          \<and> \<not> (((404::int) = 403 \<or> (404::int) = 429)
                \<and> includes_str (toLowerCase (failureMessage 404 (JsonObject (Some ''Not Found''))))
                     ''secondary rate limit'')"
    by (simp add: reaches_def demoWorld_def notFoundHost_def requestFor_def pageOutcome_def
          response_ok_def PER_PAGE_def numeral_2_eq_2)
  with upstream_failure_status [OF demo_accepted_env ab, THEN conjunct1, of 2 404 "JsonObject (Some ''Not Found'')"]
  show "\<exists>n. GET ?w (Some ''2025-01-01'') (Some ''2025-01-07'')
         = Some (Response 404 (MessageBody ''Not Found''), requestsUpTo demoOpts 2, n)"
    by (simp add: failureMessage_def bodyMessage_def demoOpts_def)
next
  let ?w = "demoWorld demoEnv demoHost failingModel demoClock"
  let ?rq = "\<lparr> l_apiKey = ''sk-demo'', l_model = ''gpt-5'', l_system = systemPrompt ''acme/app'',
                l_prompt = userPrompt ''2025-01-01'' ''2025-01-07''
                   (''2025-01-05 '' @ bullet @ '' Fix <script> escaping'' @ [nl]
                    @ ''Description: No additional description provided.'') \<rparr>"
  have ab: "\<not> w_aborted ?w" by (simp add: demoWorld_def)
  have m: "configuredModel ?w = Some ''gpt-5''"
    by (simp add: configuredModel_def demoWorld_def demoEnv_def nullish_def normalizeModelName_def
          demo_trims orElse_def)
  have k: "OPENAI_API_KEY (w_env ?w) = Some ''sk-demo''" by (simp add: demoWorld_def demoEnv_def)
  have t: "w_generateText ?w ?rq = TextThrown unauthorized" by (simp add: demoWorld_def failingModel_def)
  have n: "\<not> (instanceof_Error unauthorized \<and> err_name unauthorized = ''AbortError'')"
    by (simp add: unauthorized_def)
  have st: "err_status unauthorized = None"
    by (simp add: unauthorized_def)
  from upstream_failure_status [OF demo_accepted_env ab, THEN conjunct2, rule_format,
      OF conjI [OF demo_run_fetch conjI [OF _ conjI [OF k conjI [OF _ conjI [OF m
         conjI [OF demo_bullets conjI [OF refl conjI [OF t conjI [OF n st]]]]]]]]]]
  show "map_option fst (GET ?w (Some ''2025-01-01'') (Some ''2025-01-07''))
       = Some (Response 502 (MessageBody ''Incorrect API key provided''))"
    by (simp add: unauthorized_def)
qed

section \<open>Repeated runs\<close>

lemma processPage_dated:
  assumes "allDated cs"
  shows "processPage clock cs normalized n = (fst (processPage clock' cs normalized n'), n)"
  using assms
proof (induction cs arbitrary: normalized)
  case Nil
  then show ?case by simp
next
  case (Cons c cs)
  then have "allDated cs" and "isMerge c \<or> recordedDate c \<noteq> None"
    by (simp_all add: allDated_def)
  with Cons.IH show ?case by (cases "recordedDate c") auto
qed

lemma allDated_append: "allDated (xs @ ys) = (allDated xs \<and> allDated ys)"
  by (simp add: allDated_def)

lemma fetchLoop_clock_independent:
  assumes "fetchLoop host clock opts page normalized calls n = Some y"
  shows "\<exists>new. fst (snd y) = calls @ new
           \<and> (allDated (rawRecords host new) \<longrightarrow>
                (\<forall>clock' m. fetchLoop host clock' opts page normalized calls m
                              = Some (fst y, calls @ new, m)))"
proof (rule fetchLoop.raw_induct [where P = "\<lambda>host clock opts page normalized calls n y.
     \<exists>new. fst (snd y) = calls @ new
           \<and> (allDated (rawRecords host new) \<longrightarrow>
                (\<forall>clock' m. fetchLoop host clock' opts page normalized calls m
                              = Some (fst y, calls @ new, m)))",
     OF _ assms], goal_cases)
  case (1 f host clock opts page normalized calls n y)
  let ?rq = "GitHubRequest (requestFor opts page)"
  show ?case
  proof (cases "pageOutcome (host (requestFor opts page))")
    case (Inl err)
    with 1(2) have y: "y = (Inl err, calls @ [?rq], n)" by simp
    have "\<forall>clock' m. fetchLoop host clock' opts page normalized calls m
                              = Some (fst y, calls @ [?rq], m)"
      using Inl y by (subst fetchLoop.simps) simp
    with y show ?thesis by (intro exI [of _ "[?rq]"]) simp
  next
    case (Inr pageCommits)
    have pr: "pageRecords host ?rq = pageCommits"
      by (simp add: pageRecords_def Inr)
    obtain normalized' n1 where pp: "processPage clock pageCommits normalized n = (normalized', n1)"
      by (cases "processPage clock pageCommits normalized n")
    have dated: "processPage clock' pageCommits normalized m = (normalized', m)"
      if "allDated pageCommits" for clock' m
      using processPage_dated [OF that, of clock' normalized m clock n] pp by simp
    show ?thesis
    proof (cases "length pageCommits < PER_PAGE")
      case True
      with 1(2) Inr pp have y: "y = (Inr normalized', calls @ [?rq], n1)" by simp
      have "\<forall>clock' m. fetchLoop host clock' opts page normalized calls m
                              = Some (fst y, calls @ [?rq], m)"
        if "allDated (rawRecords host [?rq])"
      proof (intro allI)
        fix clock' m
        from that pr have "allDated pageCommits" by (simp add: rawRecords_def)
        from dated [OF this] Inr True y
        show "fetchLoop host clock' opts page normalized calls m = Some (fst y, calls @ [?rq], m)"
          by (subst fetchLoop.simps) simp
      qed
      with y show ?thesis by (intro exI [of _ "[?rq]"]) simp
    next
      case False
      with 1(2) Inr pp have "f host clock opts (page + 1) normalized' (calls @ [?rq]) n1 = Some y"
        by simp
      from 1(1) [OF this] obtain new where
        c: "fst (snd y) = (calls @ [?rq]) @ new"
        and ih: "allDated (rawRecords host new) \<longrightarrow>
                (\<forall>clock' m. fetchLoop host clock' opts (page + 1) normalized' (calls @ [?rq]) m
                              = Some (fst y, (calls @ [?rq]) @ new, m))"
        by blast
      have "\<forall>clock' m. fetchLoop host clock' opts page normalized calls m
                              = Some (fst y, calls @ ?rq # new, m)"
        if "allDated (rawRecords host (?rq # new))"
      proof (intro allI)
        fix clock' m
        from that pr have d: "allDated pageCommits" "allDated (rawRecords host new)"
          by (simp_all add: rawRecords_def allDated_append)
        from ih d(2) have "fetchLoop host clock' opts (page + 1) normalized' (calls @ [?rq]) m
                              = Some (fst y, (calls @ [?rq]) @ new, m)" by blast
        with dated [OF d(1)] Inr False
        show "fetchLoop host clock' opts page normalized calls m = Some (fst y, calls @ ?rq # new, m)"
          by (subst fetchLoop.simps) simp
      qed
      with c show ?thesis by (intro exI [of _ "?rq # new"]) simp
    qed
  qed
qed

lemma fetch_clock_independent:
  assumes "fetchCommitsFromGitHub host clock opts n = Some (result, calls, n')"
    and "allDated (rawRecords host calls)"
  shows "fetchCommitsFromGitHub host clock' opts m = Some (result, calls, m)"
  using fetchLoop_clock_independent [OF assms(1) [unfolded fetchCommitsFromGitHub_def]] assms(2)
  by (auto simp: fetchCommitsFromGitHub_def)

lemma validateWindow_getTime:
  assumes "w_getTime w' = w_getTime w"
  shows "validateWindow w' startParam endParam = validateWindow w startParam endParam"
  unfolding validateWindow_def assms by (rule refl)

lemma rawRecords_append: "rawRecords host (xs @ ys) = rawRecords host xs @ rawRecords host ys"
  by (simp add: rawRecords_def)

lemma dayKey_same:
  assumes "w_toISOString w' = w_toISOString w"
  shows "dayKey w' date fallback = dayKey w date fallback"
  by (simp add: dayKey_def assms)

lemma groupCommits_same:
  assumes "w_toISOString w' = w_toISOString w"
  shows "groupCommits w' cs acc = groupCommits w cs acc"
  by (induction cs arbitrary: acc) (simp_all add: dayKey_same [OF assms] split: option.splits)

lemma generateSummaryHtml_same:
  assumes "w_generateText w' = w_generateText w"
    and "w_toISOString w' = w_toISOString w"
    and "w_toLocaleDateString w' = w_toLocaleDateString w"
  shows "generateSummaryHtml w' model apiKey repo start end commits
         = generateSummaryHtml w model apiKey repo start end commits"
proof -
  have "bulletLine w' = bulletLine w"
    by (rule ext) (simp add: bulletLine_def dayKey_same [OF assms(2)])
  then have b: "buildBulletList w' commits = buildBulletList w commits"
    by (simp add: buildBulletList_def)
  have ws: "wrapSections w' = wrapSections w"
    by (intro ext) (simp add: wrapSections_def assms(3))
  have f: "buildFallbackSummary w' repo start end commits = buildFallbackSummary w repo start end commits"
    unfolding buildFallbackSummary_def groupCommits_same [OF assms(2)] ws by (rule refl)
  show ?thesis
    unfolding generateSummaryHtml_def b f assms(1) by (rule refl)
qed

lemma tryBlock_summary:
  assumes "tryBlock w repo token start end = Some (Response status (ReportBody body), calls, n)"
  shows "if r_commits body \<noteq> []
         then fst (generateSummaryHtml w (orEmpty (configuredModel w)) (orEmpty (OPENAI_API_KEY (w_env w)))
                     repo start end (r_commits body)) = Inr (r_summary_html body)
         else r_summary_html body = emptyRangeSentence start end"
proof -
  define commits where "commits = r_commits body"
  from tryBlock_success [OF assms] obtain calls0 n0 where
    f: "fetchCommitsFromGitHub (w_host w) (w_clock w) (fetchOptions repo token start end) 0
             = Some (Inr commits, calls0, n0)" unfolding commits_def by blast
  let ?s = "generateSummaryHtml w (orEmpty (configuredModel w)) (orEmpty (OPENAI_API_KEY (w_env w)))
              repo start end commits"
  obtain out calls1 where s: "?s = (out, calls1)" by (cases ?s)
  have "if commits \<noteq> [] then fst ?s = Inr (r_summary_html body)
        else r_summary_html body = emptyRangeSentence start end"
  proof (cases out)
    case (Inl error)
    with assms f s catchHandler_message [of w error] show ?thesis
      by (auto simp: tryBlock_def split: if_splits)
  next
    case (Inr summaryHtml)
    with assms f s show ?thesis
      by (auto simp: tryBlock_def split: if_splits)
  qed
  then show ?thesis unfolding commits_def .
qed

text \<open>
  Claim C8, as the code has it. Take two runs with the same window, the same
  configuration and the same host data, both ending with a success response. If every
  retrieved record that is not a merge carries an author or committer date, the two
  responses have the same \<open>commits\<close> array, in order and content, and agree on
  \<open>repo\<close>, \<open>start\<close>, \<open>end\<close>, \<open>commit_count\<close>, \<open>model\<close> and \<open>source\<close>; when
  the model and the date library answer alike in both runs, \<open>summary_html\<close> agrees too,
  which leaves \<open>generated_at\<close> as the only field that may differ. (A record with
  neither date is stamped with the time of its retrieval, which differs from run to run.)
\<close>

theorem repeated_runs_agree:
  assumes "GET w startParam endParam = Some (Response status (ReportBody body), calls, n)"
    and "GET w' startParam endParam = Some (Response status' (ReportBody body'), calls', n')"
    and "w_env w' = w_env w" and "w_host w' = w_host w" and "w_getTime w' = w_getTime w"
    and "allDated (rawRecords (w_host w) calls)"
  shows "r_commits body' = r_commits body
       \<and> r_repo body' = r_repo body \<and> r_start body' = r_start body \<and> r_end body' = r_end body
       \<and> m_commit_count (r_meta body') = m_commit_count (r_meta body)
       \<and> m_model (r_meta body') = m_model (r_meta body)
       \<and> m_source (r_meta body') = m_source (r_meta body)
       \<and> (w_generateText w' = w_generateText w \<and> w_toISOString w' = w_toISOString w
            \<and> w_toLocaleDateString w' = w_toLocaleDateString w
            \<longrightarrow> r_summary_html body' = r_summary_html body)"
proof -
  from GET_success [OF assms(1)] obtain token where
    a: "accepted w startParam endParam (r_repo body) token (r_start body) (r_end body)"
    and t: "tryBlock w (r_repo body) token (r_start body) (r_end body)
              = Some (Response status (ReportBody body), calls, n)" by blast
  from GET_success [OF assms(2)] obtain token' where
    a': "accepted w' startParam endParam (r_repo body') token' (r_start body') (r_end body')"
    and t': "tryBlock w' (r_repo body') token' (r_start body') (r_end body')
              = Some (Response status' (ReportBody body'), calls', n')" by blast
  from a a' assms(3) validateWindow_getTime [OF assms(5), of startParam endParam]
  have same: "r_repo body' = r_repo body" "r_start body' = r_start body" "r_end body' = r_end body"
    "token' = token"
    by (simp_all add: accepted_def)
  let ?opts = "fetchOptions (r_repo body) token (r_start body) (r_end body)"
  from tryBlock_success [OF t] obtain calls0 calls1 n0 where
    f: "fetchCommitsFromGitHub (w_host w) (w_clock w) ?opts 0 = Some (Inr (r_commits body), calls0, n0)"
    and c: "calls = calls0 @ calls1"
    and m: "m_commit_count (r_meta body) = length (r_commits body)"
      "m_model (r_meta body) = (case configuredModel w of Some m \<Rightarrow> m | None \<Rightarrow> ''unknown'')"
      "m_source (r_meta body) = ''github_live''"
    by blast
  from tryBlock_success [OF t'] same assms(4) obtain calls0' n0' where
    f': "fetchCommitsFromGitHub (w_host w) (w_clock w') ?opts 0 = Some (Inr (r_commits body'), calls0', n0')"
    and m': "m_commit_count (r_meta body') = length (r_commits body')"
      "m_model (r_meta body') = (case configuredModel w' of Some m \<Rightarrow> m | None \<Rightarrow> ''unknown'')"
      "m_source (r_meta body') = ''github_live''"
    by auto
  from assms(6) c have "allDated (rawRecords (w_host w) calls0)"
    by (simp add: rawRecords_append allDated_append)
  from fetch_clock_independent [OF f this, of "w_clock w'" 0] f'
  have commits: "r_commits body' = r_commits body" by simp
  have model: "configuredModel w' = configuredModel w"
    by (simp add: configuredModel_def assms(3))
  have "r_summary_html body' = r_summary_html body"
    if "w_generateText w' = w_generateText w \<and> w_toISOString w' = w_toISOString w
            \<and> w_toLocaleDateString w' = w_toLocaleDateString w"
  proof -
    from that have g: "generateSummaryHtml w' mo k re st en cs = generateSummaryHtml w mo k re st en cs"
      for mo k re st en cs
      by (intro generateSummaryHtml_same) simp_all
    from tryBlock_summary [OF t] tryBlock_summary [OF t'] same commits model assms(3) g
    show ?thesis by (simp split: if_splits)
  qed
  with commits model same m m' show ?thesis by simp
qed

lemma demo_configuredModel:
  "configuredModel (demoWorld demoEnv host llm clock) = Some ''gpt-5''"
  by (simp add: configuredModel_def demoWorld_def demoEnv_def nullish_def normalizeModelName_def
        demo_trims orElse_def)

lemma demo_allDated: "allDated (rawRecords demoHost [GitHubRequest (requestFor demoOpts 1)])"
  unfolding demo_rawRecords
  by (simp add: allDated_def demoPage_def demoCommit_def recordedDate_def nullish_def)

lemma demo_markup_run:
  "GET (demoWorld demoEnv demoHost markupModel clock) (Some ''2025-01-01'') (Some ''2025-01-07'')
   = Some (Response 200 (ReportBody
             \<lparr> r_repo = ''acme/app'', r_start = ''2025-01-01'', r_end = ''2025-01-07'',
               r_commits = [normalizeCommit ''2025-01-05T10:00:00Z''
                              (demoCommit ''a1'' ''Fix <script> escaping'' [''p0''] (Some ''2025-01-05T10:00:00Z''))],
               r_summary_html = ''<section><p>Shipped.</p></section>'',
               r_meta = \<lparr> m_commit_count = 1, m_model = ''gpt-5'',
                          m_generated_at = clock 0, m_source = ''github_live'' \<rparr> \<rparr>),
           [GitHubRequest (requestFor demoOpts 1), ModelCall demoRequest], 1)"
proof -
  let ?w = "demoWorld demoEnv demoHost markupModel clock"
  let ?c = "normalizeCommit ''2025-01-05T10:00:00Z''
              (demoCommit ''a1'' ''Fix <script> escaping'' [''p0''] (Some ''2025-01-05T10:00:00Z''))"
  have f: "fetchCommitsFromGitHub (w_host ?w) (w_clock ?w)
             (fetchOptions ''acme/app'' ''t0ken'' ''2025-01-01'' ''2025-01-07'') 0
           = Some (Inr [?c], [GitHubRequest (requestFor demoOpts 1)], 0)"
    using fetch_clock_independent [OF demo_fetch demo_allDated, of clock 0]
    by (simp add: demoWorld_def demoOpts_def)
  have k: "orEmpty (OPENAI_API_KEY (w_env ?w)) = ''sk-demo''"
    by (simp add: demoWorld_def demoEnv_def orEmpty_def)
  have t: "trim ''<section><p>Shipped.</p></section>'' = ''<section><p>Shipped.</p></section>''"
    by (simp add: demo_trims)
  have g: "generateSummaryHtml ?w ''gpt-5'' ''sk-demo'' ''acme/app'' ''2025-01-01'' ''2025-01-07'' [?c]
           = (Inr ''<section><p>Shipped.</p></section>'', [ModelCall demoRequest])"
    unfolding generateSummaryHtml_def demo_bullets
    by (simp add: demoWorld_def markupModel_def t startsWith_def demoRequest_def)
  have c: "w_clock ?w 0 = clock 0" by (simp add: demoWorld_def)
  show ?thesis
    unfolding GET_accepted [OF demo_accepted_env] tryBlock_def f
    apply (simp add: demo_configuredModel k c)
    apply (simp add: orEmpty_def g demo_configuredModel c)
    done
qed

theorem repeated_runs_agree_witness:
  "demoClock 0 \<noteq> laterClock 0
   \<and> allDated (rawRecords demoHost [GitHubRequest (requestFor demoOpts 1), ModelCall demoRequest])
   \<and> map_option r_commits (successBody (GET (demoWorld demoEnv demoHost markupModel laterClock)
                                            (Some ''2025-01-01'') (Some ''2025-01-07'')))
     = map_option r_commits (successBody (GET (demoWorld demoEnv demoHost markupModel demoClock)
                                            (Some ''2025-01-01'') (Some ''2025-01-07'')))
   \<and> map_option r_summary_html (successBody (GET (demoWorld demoEnv demoHost markupModel laterClock)
                                            (Some ''2025-01-01'') (Some ''2025-01-07'')))
     = map_option r_summary_html (successBody (GET (demoWorld demoEnv demoHost markupModel demoClock)
                                            (Some ''2025-01-01'') (Some ''2025-01-07'')))"
proof -
  let ?w = "demoWorld demoEnv demoHost markupModel demoClock"
  let ?w' = "demoWorld demoEnv demoHost markupModel laterClock"
  have d: "allDated (rawRecords (w_host ?w) [GitHubRequest (requestFor demoOpts 1), ModelCall demoRequest])"
    using demo_allDated
    by (simp add: rawRecords_def demoWorld_def pageRecords_def)
  have e: "w_env ?w' = w_env ?w" "w_host ?w' = w_host ?w" "w_getTime ?w' = w_getTime ?w"
    by (simp_all add: demoWorld_def)
  have g: "w_generateText ?w' = w_generateText ?w \<and> w_toISOString ?w' = w_toISOString ?w
            \<and> w_toLocaleDateString ?w' = w_toLocaleDateString ?w"
    by (simp add: demoWorld_def)
  have c: "demoClock 0 \<noteq> laterClock 0"
    by (simp add: demoClock_def laterClock_def)
  have h: "w_host ?w = demoHost" by (simp add: demoWorld_def)
  from repeated_runs_agree [OF demo_markup_run [of demoClock] demo_markup_run [of laterClock] e d] g c d
  show ?thesis
    by (simp add: demo_markup_run successBody_def h)
qed

text \<open>
  Two runs against the same host data whose clocks differ: the host's record has neither
  an author date nor a committer date, and the two \<open>commits\<close> arrays differ in the date of
  that record.
\<close>

theorem undated_commit_differs_between_runs:
  "w_host (demoWorld demoEnv undatedHost markupModel laterClock)
     = w_host (demoWorld demoEnv undatedHost markupModel demoClock)
   \<and> map_option r_commits (successBody (GET (demoWorld demoEnv undatedHost markupModel demoClock)
                                            (Some ''2025-01-01'') (Some ''2025-01-07'')))
     = Some [normalizeCommit ''2025-02-01T00:00:00Z'' (demoCommit ''a1'' ''Add feature'' [''p0''] None)]
   \<and> map_option r_commits (successBody (GET (demoWorld demoEnv undatedHost markupModel laterClock)
                                            (Some ''2025-01-01'') (Some ''2025-01-07'')))
     = Some [normalizeCommit ''2025-02-02T00:00:00Z'' (demoCommit ''a1'' ''Add feature'' [''p0''] None)]
   \<and> normalizeCommit ''2025-02-01T00:00:00Z'' (demoCommit ''a1'' ''Add feature'' [''p0''] None)
     \<noteq> normalizeCommit ''2025-02-02T00:00:00Z'' (demoCommit ''a1'' ''Add feature'' [''p0''] None)"
proof -
  let ?c = "demoCommit ''a1'' ''Add feature'' [''p0''] None"
  have run: "map_option r_commits (successBody (GET (demoWorld demoEnv undatedHost markupModel clock)
                                            (Some ''2025-01-01'') (Some ''2025-01-07'')))
             = Some [normalizeCommit (clock 0) ?c]"
    if len: "length (clock 0) = 20" for clock
  proof -
    let ?w = "demoWorld demoEnv undatedHost markupModel clock"
    have f: "fetchCommitsFromGitHub (w_host ?w) (w_clock ?w)
               (fetchOptions ''acme/app'' ''t0ken'' ''2025-01-01'' ''2025-01-07'') 0
             = Some (Inr [normalizeCommit (clock 0) ?c], [GitHubRequest (requestFor demoOpts 1)], 1)"
      apply (simp add: fetchCommitsFromGitHub_def)
      apply (subst fetchLoop.simps)
      apply (simp add: demoWorld_def undatedHost_def pageOutcome_def response_ok_def PER_PAGE_def
          isMerge_def demoCommit_def summaryLineOf_def firstLine_def nl_def demo_trims
          startsWith_def toLowerCase_def lowerChar_def recordedDate_def nullish_def demoOpts_def)
      done
    have k: "orEmpty (OPENAI_API_KEY (w_env ?w)) = ''sk-demo''"
      by (simp add: demoWorld_def demoEnv_def orEmpty_def)
    have b: "buildBulletList ?w [normalizeCommit (clock 0) ?c] \<noteq> None"
      using len
      by (auto simp add: buildBulletList_def bulletLine_def extractCommitDetails_def normalizeCommit_def
        demoCommit_def nl_def demo_trims orElse_def dayKey_def demoWorld_def
        demoToISOString_def)
    have t: "trim ''<section><p>Shipped.</p></section>'' = ''<section><p>Shipped.</p></section>''"
      by (simp add: demo_trims)
    from b obtain bl where bl: "buildBulletList ?w [normalizeCommit (clock 0) ?c] = Some bl" by blast
    have g: "fst (generateSummaryHtml ?w ''gpt-5'' ''sk-demo'' ''acme/app'' ''2025-01-01'' ''2025-01-07''
                [normalizeCommit (clock 0) ?c])
             = Inr ''<section><p>Shipped.</p></section>''"
      unfolding generateSummaryHtml_def bl
      by (simp add: demoWorld_def markupModel_def t startsWith_def)
    obtain out cs where o: "generateSummaryHtml ?w ''gpt-5'' ''sk-demo'' ''acme/app'' ''2025-01-01'' ''2025-01-07''
                [normalizeCommit (clock 0) ?c] = (out, cs)" by (cases "generateSummaryHtml ?w ''gpt-5'' ''sk-demo'' ''acme/app'' ''2025-01-01'' ''2025-01-07''
                [normalizeCommit (clock 0) ?c]")
    with g have out: "out = Inr ''<section><p>Shipped.</p></section>''" by simp
    show ?thesis
      unfolding GET_accepted [OF demo_accepted_env] tryBlock_def f
      apply (simp add: demo_configuredModel k)
      apply (simp add: orEmpty_def o out successBody_def demo_configuredModel)
      done
  qed
  have "length (demoClock 0) = 20" "length (laterClock 0) = 20"
    by (simp_all add: demoClock_def laterClock_def)
  with run [of demoClock] run [of laterClock] show ?thesis
    by (simp add: demoClock_def laterClock_def digitChar_def demoWorld_def normalizeCommit_def)
qed

section \<open>The deterministic fallback\<close>

lemma escapeChar_entity:
  "escapeChar c = (case map_of specialEntities c of Some e \<Rightarrow> e | None \<Rightarrow> [c])"
  by (simp add: escapeChar_def specialEntities_def)

lemma escapeHtml_escaped: "escapeHtml s = escaped s"
  unfolding escapeHtml_def escaped_def
  by (rule arg_cong [where f = concat], rule map_cong [OF refl], rule escapeChar_entity)

lemma escaped_safe: "set (escaped s) \<inter> htmlSpecial = {}"
  unfolding escapeHtml_escaped [symmetric]
  by (induction s) (auto simp: escapeHtml_def escapeChar_def htmlSpecial_def)

lemma splitOn_head: "splitOn sep s = takeWhile (\<lambda>c. c \<noteq> sep) s # tl (splitOn sep s)"
  by (induction s) (auto split: list.splits)

lemma firstLine_takeWhile: "firstLine m = takeWhile (\<lambda>c. c \<noteq> CHR 0x0A) m"
  unfolding firstLine_def by (subst splitOn_head) (simp add: nl_def)

lemma listedText_itemText: "listedText commit = itemText commit"
  by (simp add: listedText_def itemText_def orElse_def firstLine_takeWhile)

lemma renderSection_dayArticle: "renderSection (day, cs) = dayArticle itemText day cs"
proof -
  have "renderItem = (\<lambda>c. ''<li><strong>'' @ escaped (itemText c) @ ''</strong></li>'')"
    by (rule ext) (simp add: renderItem_def listedText_itemText escapeHtml_escaped)
  then show ?thesis
    by (simp add: renderSection_def articleMarkup_def dayArticle_def nl_def)
qed

lemma dayArticle_nonempty: "dayArticle shown day cs \<noteq> []"
  by (simp add: dayArticle_def)

lemma mapM_Some:
  "mapM f xs = Some ys \<Longrightarrow> x \<in> set xs \<Longrightarrow> f x \<noteq> None"
  by (induction xs arbitrary: ys) (auto split: option.splits)

lemma bullets_days:
  assumes "buildBulletList w commits = Some bulletList" and "c \<in> set commits"
  shows "dayKey w (cs_date c) ''Unknown date'' = Some (utcDay w c)"
proof -
  from assms(1) obtain ls where "mapM (bulletLine w) commits = Some ls"
    by (auto simp: buildBulletList_def)
  from mapM_Some [OF this assms(2)] have "dayKey w (cs_date c) ''????-??-??'' \<noteq> None"
    by (auto simp: bulletLine_def split: prod.splits option.splits)
  then have "cs_date c \<noteq> [] \<longrightarrow> w_toISOString w (cs_date c) \<noteq> None"
    by (auto simp: dayKey_def)
  then show ?thesis by (auto simp: utcDay_def dayKey_def)
qed

lemma pushGroup_distinct:
  assumes "distinct (map fst g)"
  shows "pushGroup d c g =
          (if d \<in> fst ` set g
           then map (\<lambda>e. if fst e = d then (fst e, snd e @ [c]) else e) g
           else g @ [(d, [c])])"
  using assms
proof (induction d c g rule: pushGroup.induct)
  case (1 d c)
  then show ?case by simp
next
  case (2 d c k v kvs)
  show ?case
  proof (cases "k = d")
    case True
    with 2(2) have "d \<notin> fst ` set kvs" by (auto simp: image_iff)
    then have "map (\<lambda>e. if fst e = d then (fst e, snd e @ [c]) else e) kvs = kvs"
      by (intro map_idI) auto
    with True show ?thesis by simp
  next
    case False
    with 2 show ?thesis by auto
  qed
qed

lemma groupedBy_push:
  assumes "groupedBy key cs g"
  shows "groupedBy key (cs @ [c]) (pushGroup (key c) c g)"
proof -
  from assms have d: "distinct (map fst g)" and k: "set (map fst g) = key ` set cs"
    and e: "\<And>e. e \<in> set g \<Longrightarrow> snd e = filter (\<lambda>c. key c = fst e) cs"
    by (auto simp: groupedBy_def)
  show ?thesis
  proof (cases "key c \<in> fst ` set g")
    case True
    let ?u = "\<lambda>e. if fst e = key c then (fst e, snd e @ [c]) else e"
    have p: "pushGroup (key c) c g = map ?u g"
      using pushGroup_distinct [OF d] True by simp
    have f: "map fst (map ?u g) = map fst g" by (induction g) auto
    have s: "snd e' = filter (\<lambda>x. key x = fst e') (cs @ [c])" if "e' \<in> set (map ?u g)" for e'
    proof -
      from that have "e' \<in> ?u ` set g" by simp
      then obtain e0 where e0: "e0 \<in> set g" "e' = ?u e0" by (rule imageE)
      with e [OF e0(1)] show ?thesis by (cases "fst e0 = key c") auto
    qed
    show ?thesis
      unfolding groupedBy_def p
    proof (intro conjI ballI)
      show "distinct (map fst (map ?u g))" unfolding f by (rule d)
      from k True show "set (map fst (map ?u g)) = key ` set (cs @ [c])"
        unfolding f by auto
      fix e' assume "e' \<in> set (map ?u g)"
      then show "snd e' = filter (\<lambda>x. key x = fst e') (cs @ [c])" by (rule s)
    qed
  next
    case False
    have p: "pushGroup (key c) c g = g @ [(key c, [c])]"
      using pushGroup_distinct [OF d] False by simp
    from False k have n: "filter (\<lambda>x. key x = key c) cs = []"
      by (auto simp: filter_empty_conv image_iff) (metis fst_conv image_iff list.set_map)
    have s: "snd e' = filter (\<lambda>x. key x = fst e') (cs @ [c])" if "e' \<in> set (g @ [(key c, [c])])" for e'
    proof (cases "e' \<in> set g")
      case True
      with False have "fst e' \<noteq> key c" by (metis imageI)
      with e [OF True] show ?thesis by auto
    next
      case False
      with that have "e' = (key c, [c])" by simp
      with n show ?thesis by simp
    qed
    show ?thesis
      unfolding groupedBy_def p
    proof (intro conjI ballI)
      from d False show "distinct (map fst (g @ [(key c, [c])]))" by simp
      from k show "set (map fst (g @ [(key c, [c])])) = key ` set (cs @ [c])" by auto
      fix e' assume "e' \<in> set (g @ [(key c, [c])])"
      then show "snd e' = filter (\<lambda>x. key x = fst e') (cs @ [c])" by (rule s)
    qed
  qed
qed

lemma groupCommits_grouped:
  assumes "\<forall>c \<in> set cs. dayKey w (cs_date c) ''Unknown date'' = Some (utcDay w c)"
    and "groupedBy (utcDay w) pre acc"
  shows "\<exists>g. groupCommits w cs acc = Some g \<and> groupedBy (utcDay w) (pre @ cs) g"
  using assms
proof (induction cs arbitrary: pre acc)
  case Nil
  then show ?case by simp
next
  case (Cons c cs)
  from Cons.prems(2) have "groupedBy (utcDay w) (pre @ [c]) (pushGroup (utcDay w c) c acc)"
    by (rule groupedBy_push)
  from Cons.IH [OF _ this] Cons.prems(1) show ?case by simp
qed

lemma sort_grouped:
  assumes "groupedBy key cs g"
  shows "sort_key fst g = map (\<lambda>d. (d, filter (\<lambda>c. key c = d) cs)) (sort (remdups (map key cs)))"
proof -
  let ?F = "\<lambda>d. (d, filter (\<lambda>c. key c = d) cs)"
  from assms have d: "distinct (map fst g)" and k: "set (map fst g) = key ` set cs"
    and e: "\<And>e. e \<in> set g \<Longrightarrow> snd e = filter (\<lambda>c. key c = fst e) cs"
    by (auto simp: groupedBy_def)
  have "map ?F (map fst (sort_key fst g)) = sort_key fst g"
    unfolding map_map by (rule map_idI) (use e in \<open>auto simp: prod_eq_iff\<close>)
  moreover have "map fst (sort_key fst g) = sort (remdups (map key cs))"
  proof (rule sorted_distinct_set_unique)
    show "sorted (map fst (sort_key fst g))" by (rule sorted_sort_key)
    from d show "distinct (map fst (sort_key fst g))" by (simp add: distinct_map)
    show "sorted (sort (remdups (map key cs)))" by simp
    show "distinct (sort (remdups (map key cs)))" by simp
    from k show "set (map fst (sort_key fst g)) = set (sort (remdups (map key cs)))" by simp
  qed
  ultimately show ?thesis by simp
qed

lemma fallback_refines:
  assumes "buildBulletList w commits = Some bulletList" and "commits \<noteq> []"
  shows "buildFallbackSummary w repo start end commits
         = Some (fallbackListing itemText w start end commits)"
proof -
  let ?days = "sort (remdups (map (utcDay w) commits))"
  let ?sections = "concat (map (\<lambda>day. dayArticle itemText day (filter (\<lambda>c. utcDay w c = day) commits)) ?days)"
  have "groupedBy (utcDay w) [] []" by (simp add: groupedBy_def)
  with groupCommits_grouped [of commits w "[]" "[]"] bullets_days [OF assms(1)]
  obtain g where g: "groupCommits w commits [] = Some g" "groupedBy (utcDay w) commits g"
    by auto
  from sort_grouped [OF g(2)]
  have s: "concat (map renderSection (sort_key fst g)) = ?sections"
    by (simp add: comp_def renderSection_dayArticle)
  from assms(2) obtain day days where d: "?days = day # days"
    by (cases ?days) (auto simp: sort_key_id_if_sorted dest: arg_cong [where f = set])
  have n: "?sections \<noteq> []"
    unfolding d by (simp add: dayArticle_nonempty)
  have "wrapSections w start end ?sections = fallbackListing itemText w start end commits"
    using n unfolding wrapSections_def fallbackListing_def spanDescription_def orElse_def
    by (simp add: escapeHtml_escaped nl_def)
  with g(1) s show ?thesis
    by (simp add: buildFallbackSummary_def)
qed

lemma whitespace_reply:
  assumes "commits \<noteq> []" and "apiKey \<noteq> []" and "model \<noteq> []"
    and "buildBulletList w commits = Some bulletList"
    and "w_generateText w \<lparr> l_apiKey = apiKey, l_model = model, l_system = systemPrompt repo,
                            l_prompt = userPrompt start end bulletList \<rparr> = TextOk reply"
    and "trim reply = []"
  shows "generateSummaryHtml w model apiKey repo start end commits
         = (Inr (fallbackListing itemText w start end commits),
            [ModelCall \<lparr> l_apiKey = apiKey, l_model = model, l_system = systemPrompt repo,
                         l_prompt = userPrompt start end bulletList \<rparr>])"
  using assms by (simp add: generateSummaryHtml_def fallback_refines [OF assms(4,1)])

lemma listing_of_summary_lines:
  assumes "\<forall>c \<in> set commits. cs_summary_line c \<noteq> []"
  shows "fallbackListing itemText w start end commits
         = fallbackListing cs_summary_line w start end commits"
proof -
  have "map (\<lambda>c. ''<li><strong>'' @ escaped (itemText c) @ ''</strong></li>'') (filter P commits)
        = map (\<lambda>c. ''<li><strong>'' @ escaped (cs_summary_line c) @ ''</strong></li>'') (filter P commits)" for P
    using assms by (intro map_cong refl) (simp add: itemText_def)
  then have *: "dayArticle itemText day (filter P commits)
        = dayArticle cs_summary_line day (filter P commits)" for day P
    unfolding dayArticle_def by (simp only:)
  show ?thesis
    unfolding fallbackListing_def * by (rule refl)
qed

text \<open>
  Claim C6, as the code has it. Let the retrieval of an accepted request succeed with a
  non-empty batch, the model be configured and called, and its reply be empty or white
  space only. Then the response is the report whose \<open>summary_html\<close> is the fallback:
  inside one \<open>section\<close> element, the description of the date span and then the commits
  grouped by day, the days ascending, one article per day. Each item is HTML-escaped, the
  ampersand included, so it holds none of the characters \<open><\<close>, \<open>>\<close>, double quote and
  single quote, and shows the commit's summary line or, when that is empty, the first line
  of its message or else its sha. When no summary line is empty the fallback lists the
  summary lines throughout.
\<close>

theorem whitespace_reply_yields_fallback:
  assumes "accepted w startParam endParam repo token start end"
    and "fetchCommitsFromGitHub (w_host w) (w_clock w) (fetchOptions repo token start end) 0
           = Some (Inr commits, calls, n)"
    and "commits \<noteq> []"
    and "OPENAI_API_KEY (w_env w) = Some apiKey" and "apiKey \<noteq> []"
    and "configuredModel w = Some model"
    and "buildBulletList w commits = Some bulletList"
    and "rq = \<lparr> l_apiKey = apiKey, l_model = model, l_system = systemPrompt repo,
                  l_prompt = userPrompt start end bulletList \<rparr>"
    and "w_generateText w rq = TextOk reply"
    and "trim reply = []"
  shows "GET w startParam endParam
         = Some (Response 200 (ReportBody
                   \<lparr> r_repo = repo, r_start = start, r_end = end, r_commits = commits,
                     r_summary_html = fallbackListing itemText w start end commits,
                     r_meta = \<lparr> m_commit_count = length commits, m_model = model,
                                m_generated_at = w_clock w n, m_source = ''github_live'' \<rparr> \<rparr>),
                 calls @ [ModelCall rq], Suc n)
       \<and> (\<forall>c \<in> set commits. set (escaped (itemText c)) \<inter> htmlSpecial = {})
       \<and> (\<forall>c \<in> set commits. cs_summary_line c \<noteq> [] \<longrightarrow> itemText c = cs_summary_line c)
       \<and> ((\<forall>c \<in> set commits. cs_summary_line c \<noteq> [])
            \<longrightarrow> fallbackListing itemText w start end commits
                = fallbackListing cs_summary_line w start end commits)"
proof -
  from assms(6) have m: "model \<noteq> []"
    by (auto simp: configuredModel_def dest: normalizeModelName_nonempty)
  have "generateSummaryHtml w model apiKey repo start end commits
         = (Inr (fallbackListing itemText w start end commits), [ModelCall rq])"
    unfolding assms(8)
    by (rule whitespace_reply [OF assms(3,5) m assms(7) assms(9) [unfolded assms(8)] assms(10)])
  with assms(2,3,4,6) have "GET w startParam endParam
         = Some (Response 200 (ReportBody
                   \<lparr> r_repo = repo, r_start = start, r_end = end, r_commits = commits,
                     r_summary_html = fallbackListing itemText w start end commits,
                     r_meta = \<lparr> m_commit_count = length commits, m_model = model,
                                m_generated_at = w_clock w n, m_source = ''github_live'' \<rparr> \<rparr>),
                 calls @ [ModelCall rq], Suc n)"
    by (simp add: GET_accepted [OF assms(1)] tryBlock_def orEmpty_def)
  moreover have "\<forall>c \<in> set commits. cs_summary_line c \<noteq> [] \<longrightarrow> itemText c = cs_summary_line c"
    by (simp add: itemText_def)
  ultimately show ?thesis
    using escaped_safe listing_of_summary_lines by blast
qed


lemma short_page_fetch:
  assumes "\<And>rq. host rq = Responded 200 (JsonCommits page)"
    and "length page < 100"
    and "processPage clock page [] 0 = (batch, k)"
  shows "fetchCommitsFromGitHub host clock opts 0
         = Some (Inr batch, [GitHubRequest (requestFor opts 1)], k)"
  apply (simp add: fetchCommitsFromGitHub_def)
  apply (subst fetchLoop.simps)
  apply (simp add: assms pageOutcome_def response_ok_def PER_PAGE_def)
  done

lemma silent_reply: "trim silentReply = []"
  by (simp add: silentReply_def demo_trims)

lemma demo_silent_run:
  assumes "processPage clock page [] 0 = (batch, k)" and "length page < 100" and "batch \<noteq> []"
    and "buildBulletList (demoWorld demoEnv (\<lambda>rq. Responded 200 (JsonCommits page)) silentModel clock) batch
         = Some bulletList"
  shows "map_option fst (GET (demoWorld demoEnv (\<lambda>rq. Responded 200 (JsonCommits page)) silentModel clock)
                           (Some ''2025-01-01'') (Some ''2025-01-07''))
         = Some (Response 200 (ReportBody
             \<lparr> r_repo = ''acme/app'', r_start = ''2025-01-01'', r_end = ''2025-01-07'', r_commits = batch,
               r_summary_html = fallbackListing itemText (demoWorld demoEnv (\<lambda>rq. Responded 200 (JsonCommits page)) silentModel clock)
                                  ''2025-01-01'' ''2025-01-07'' batch,
               r_meta = \<lparr> m_commit_count = length batch, m_model = ''gpt-5'',
                          m_generated_at = clock k, m_source = ''github_live'' \<rparr> \<rparr>))"
proof -
  let ?w = "demoWorld demoEnv (\<lambda>rq. Responded 200 (JsonCommits page)) silentModel clock"
  have f: "fetchCommitsFromGitHub (w_host ?w) (w_clock ?w)
             (fetchOptions ''acme/app'' ''t0ken'' ''2025-01-01'' ''2025-01-07'') 0
           = Some (Inr batch, [GitHubRequest (requestFor (fetchOptions ''acme/app'' ''t0ken'' ''2025-01-01'' ''2025-01-07'') 1)], k)"
    using short_page_fetch [OF _ assms(2,1)] by (simp add: demoWorld_def)
  have g: "generateSummaryHtml ?w ''gpt-5'' ''sk-demo'' ''acme/app'' ''2025-01-01'' ''2025-01-07'' batch
           = (Inr (fallbackListing itemText ?w ''2025-01-01'' ''2025-01-07'' batch),
              [ModelCall \<lparr> l_apiKey = ''sk-demo'', l_model = ''gpt-5'', l_system = systemPrompt ''acme/app'',
                           l_prompt = userPrompt ''2025-01-01'' ''2025-01-07'' bulletList \<rparr>])"
    by (rule whitespace_reply [OF assms(3) _ _ assms(4), where reply = silentReply])
       (simp_all add: demoWorld_def silentModel_def silent_reply)
  have k: "orEmpty (OPENAI_API_KEY (w_env ?w)) = ''sk-demo''"
    by (simp add: demoWorld_def demoEnv_def orEmpty_def)
  have c: "w_clock ?w k = clock k" by (simp add: demoWorld_def)
  show ?thesis
    unfolding GET_accepted [OF demo_accepted_env] tryBlock_def f
    apply (simp add: demo_configuredModel k c assms(3))
    apply (simp add: orEmpty_def g demo_configuredModel c)
    done
qed


lemma twoDay_fetch:
  "fetchCommitsFromGitHub twoDayHost demoClock
     (fetchOptions ''acme/app'' ''t0ken'' ''2025-01-01'' ''2025-01-07'') 0
   = Some (Inr twoDays, [GitHubRequest (requestFor demoOpts 1)], 0)"
proof -
  have "processPage demoClock twoDayPage [] 0 = (twoDays, 0)"
    by (simp add: twoDayPage_def twoDays_def isMerge_def demoCommit_def summaryLineOf_def
          firstLine_def nl_def demo_trims startsWith_def toLowerCase_def lowerChar_def
          recordedDate_def nullish_def)
  from short_page_fetch [of twoDayHost twoDayPage, OF _ _ this] show ?thesis
    by (simp add: twoDayHost_def twoDayPage_def demoOpts_def)
qed

lemma twoDay_days:
  "map (utcDay (demoWorld env host llm clock)) twoDays = [''2025-01-05'', ''2025-01-03'', ''2025-01-05'']"
  by (simp add: twoDays_def utcDay_def demoWorld_def demoToISOString_def normalizeCommit_def)

lemma twoDay_texts:
  "map itemText twoDays = [''Fix <script> escaping'', ''Add feature'', ''Ship A & B'']"
  by (simp add: twoDays_def itemText_def normalizeCommit_def summaryLineOf_def demoCommit_def
        firstLine_def nl_def demo_trims)

lemma twoDay_listing:
  "fallbackListing itemText (demoWorld env host llm clock) ''2025-01-01'' ''2025-01-07'' twoDays
   = twoDayFallback"
proof -
  let ?w = "demoWorld env host llm clock"
  obtain a b c where abc: "twoDays = [a, b, c]" by (simp add: twoDays_def)
  from twoDay_days [of env host llm clock]
  have d: "utcDay ?w a = ''2025-01-05''" "utcDay ?w b = ''2025-01-03''" "utcDay ?w c = ''2025-01-05''"
    by (simp_all add: abc)
  from twoDay_texts
  have t: "itemText a = ''Fix <script> escaping''" "itemText b = ''Add feature''"
    "itemText c = ''Ship A & B''"
    by (simp_all add: abc)
  have s: "sort (remdups (map (utcDay ?w) twoDays)) = [''2025-01-03'', ''2025-01-05'']"
    unfolding twoDay_days by simp
  have l: "w_toLocaleDateString ?w ''2025-01-01'' = ''January 1, 2025''"
    "w_toLocaleDateString ?w ''2025-01-07'' = ''January 7, 2025''"
    by (simp_all add: demoWorld_def demoLocale_def)
  show ?thesis
    unfolding fallbackListing_def s spanDescription_def l
    by (simp add: abc d t dayArticle_def escaped_def specialEntities_def twoDayFallback_def)
qed

theorem whitespace_reply_yields_fallback_witness:
  "map_option fst (GET (demoWorld demoEnv twoDayHost silentModel demoClock)
                     (Some ''2025-01-01'') (Some ''2025-01-07''))
   = Some (Response 200 (ReportBody
             \<lparr> r_repo = ''acme/app'', r_start = ''2025-01-01'', r_end = ''2025-01-07'', r_commits = twoDays,
               r_summary_html = twoDayFallback,
               r_meta = \<lparr> m_commit_count = 3, m_model = ''gpt-5'',
                          m_generated_at = demoClock 0, m_source = ''github_live'' \<rparr> \<rparr>))
   \<and> silentModel \<lparr> l_apiKey = ''sk-demo'', l_model = ''gpt-5'', l_system = [], l_prompt = [] \<rparr>
       = TextOk [CHR 0x20, CHR 0xC2, CHR 0xA0, CHR 0x0A]
   \<and> map (utcDay (demoWorld demoEnv twoDayHost silentModel demoClock)) twoDays
       = [''2025-01-05'', ''2025-01-03'', ''2025-01-05'']
   \<and> map cs_summary_line twoDays = [''Fix <script> escaping'', ''Add feature'', ''Ship A & B'']"
proof -
  let ?w = "demoWorld demoEnv twoDayHost silentModel demoClock"
  have f: "fetchCommitsFromGitHub (w_host ?w) (w_clock ?w)
             (fetchOptions ''acme/app'' ''t0ken'' ''2025-01-01'' ''2025-01-07'') 0
           = Some (Inr twoDays, [GitHubRequest (requestFor demoOpts 1)], 0)"
    using twoDay_fetch by (simp add: demoWorld_def)
  have ne: "twoDays \<noteq> []" by (simp add: twoDays_def)
  have k: "OPENAI_API_KEY (w_env ?w) = Some ''sk-demo''" by (simp add: demoWorld_def demoEnv_def)
  have k': "''sk-demo'' \<noteq> []" by simp
  have "buildBulletList ?w twoDays \<noteq> None"
    by (simp add: buildBulletList_def bulletLine_def extractCommitDetails_def twoDays_def
          normalizeCommit_def demoCommit_def nl_def demo_trims orElse_def dayKey_def
          demoWorld_def demoToISOString_def)
  then obtain bl where bl: "buildBulletList ?w twoDays = Some bl" by blast
  have t: "w_generateText ?w \<lparr> l_apiKey = ''sk-demo'', l_model = ''gpt-5'', l_system = systemPrompt ''acme/app'',
                  l_prompt = userPrompt ''2025-01-01'' ''2025-01-07'' bl \<rparr> = TextOk silentReply"
    by (simp add: demoWorld_def silentModel_def)
  have m: "silentModel \<lparr> l_apiKey = ''sk-demo'', l_model = ''gpt-5'', l_system = [], l_prompt = [] \<rparr>
       = TextOk [CHR 0x20, CHR 0xC2, CHR 0xA0, CHR 0x0A]"
    by (simp add: silentModel_def silentReply_def)
  have s: "map cs_summary_line twoDays = [''Fix <script> escaping'', ''Add feature'', ''Ship A & B'']"
    by (simp add: twoDays_def normalizeCommit_def summaryLineOf_def demoCommit_def
          firstLine_def nl_def demo_trims)
  have c: "w_clock ?w 0 = demoClock 0" by (simp add: demoWorld_def)
  have n: "length twoDays = 3" by (simp add: twoDays_def)
  from whitespace_reply_yields_fallback [OF demo_accepted_env f ne k k' demo_configuredModel bl refl t
      silent_reply]
  have "GET ?w (Some ''2025-01-01'') (Some ''2025-01-07'')
         = Some (Response 200 (ReportBody
                   \<lparr> r_repo = ''acme/app'', r_start = ''2025-01-01'', r_end = ''2025-01-07'',
                     r_commits = twoDays, r_summary_html = twoDayFallback,
                     r_meta = \<lparr> m_commit_count = 3, m_model = ''gpt-5'',
                                m_generated_at = demoClock 0, m_source = ''github_live'' \<rparr> \<rparr>),
                 [GitHubRequest (requestFor demoOpts 1)]
                 @ [ModelCall \<lparr> l_apiKey = ''sk-demo'', l_model = ''gpt-5'',
                                l_system = systemPrompt ''acme/app'',
                                l_prompt = userPrompt ''2025-01-01'' ''2025-01-07'' bl \<rparr>], Suc 0)"
    unfolding twoDay_listing c n by (rule conjunct1)
  with m s twoDay_days [of demoEnv twoDayHost silentModel demoClock] show ?thesis by simp
qed

text \<open>
  A raw record without a message has an empty summary line; the fallback lists its sha, so
  the \<open>summary_html\<close> of the run is not the listing of the summary lines.
\<close>

theorem blank_summary_line_lists_sha:
  "cs_summary_line blankSummary = []
   \<and> itemText blankSummary = ''f6''
   \<and> map_option r_summary_html
        (successBody (GET (demoWorld demoEnv blankHost silentModel demoClock)
                        (Some ''2025-01-01'') (Some ''2025-01-07'')))
     = Some (fallbackListing itemText (demoWorld demoEnv blankHost silentModel demoClock)
               ''2025-01-01'' ''2025-01-07'' [blankSummary])
   \<and> fallbackListing itemText (demoWorld demoEnv blankHost silentModel demoClock)
               ''2025-01-01'' ''2025-01-07'' [blankSummary]
     \<noteq> fallbackListing cs_summary_line (demoWorld demoEnv blankHost silentModel demoClock)
               ''2025-01-01'' ''2025-01-07'' [blankSummary]"
proof -
  let ?w = "demoWorld demoEnv blankHost silentModel demoClock"
  have h: "blankHost = (\<lambda>rq. Responded 200 (JsonCommits [blankCommit]))"
    by (rule ext) (simp add: blankHost_def)
  have s: "cs_summary_line blankSummary = []"
    by (simp add: blankSummary_def normalizeCommit_def summaryLineOf_def blankCommit_def
          firstLine_def demo_trims)
  have l: "itemText blankSummary = ''f6''"
    by (simp add: itemText_def s)
       (simp add: blankSummary_def normalizeCommit_def blankCommit_def)
  have p: "processPage demoClock [blankCommit] [] 0 = ([blankSummary], 0)"
    by (simp add: blankSummary_def isMerge_def blankCommit_def summaryLineOf_def
          firstLine_def demo_trims startsWith_def toLowerCase_def recordedDate_def nullish_def)
  have "buildBulletList ?w [blankSummary] \<noteq> None"
    by (simp add: buildBulletList_def bulletLine_def extractCommitDetails_def blankSummary_def
          normalizeCommit_def blankCommit_def nl_def demo_trims orElse_def dayKey_def
          demoWorld_def demoToISOString_def)
  then obtain bl where bl: "buildBulletList ?w [blankSummary] = Some bl" by blast
  from demo_silent_run [OF p _ _ bl [unfolded h]]
  have "map_option fst (GET ?w (Some ''2025-01-01'') (Some ''2025-01-07''))
         = Some (Response 200 (ReportBody
             \<lparr> r_repo = ''acme/app'', r_start = ''2025-01-01'', r_end = ''2025-01-07'',
               r_commits = [blankSummary],
               r_summary_html = fallbackListing itemText ?w ''2025-01-01'' ''2025-01-07'' [blankSummary],
               r_meta = \<lparr> m_commit_count = length [blankSummary], m_model = ''gpt-5'',
                          m_generated_at = demoClock 0, m_source = ''github_live'' \<rparr> \<rparr>))"
    by (simp add: h)
  then have r: "map_option r_summary_html (successBody (GET ?w (Some ''2025-01-01'') (Some ''2025-01-07'')))
     = Some (fallbackListing itemText ?w ''2025-01-01'' ''2025-01-07'' [blankSummary])"
    by (auto simp: successBody_def)
  have n: "fallbackListing itemText ?w ''2025-01-01'' ''2025-01-07'' [blankSummary]
     \<noteq> fallbackListing cs_summary_line ?w ''2025-01-01'' ''2025-01-07'' [blankSummary]"
    by (simp add: fallbackListing_def dayArticle_def l s escaped_def specialEntities_def)
  from s l r n show ?thesis by simp
qed

section \<open>The deadline\<close>

text \<open>
  Once the signal of the deadline has fired, a run of an accepted request that ends in the
  \<open>catch\<close> block answers 504 with the timeout message, whichever stage threw and
  whatever it threw; the only other outcome is the success response of a run in which no
  stage threw.
\<close>

lemma fired_deadline_answers_504:
  assumes "accepted w startParam endParam repo token start end"
    and "w_aborted w"
    and "GET w startParam endParam = Some (response, calls, n)"
  shows "response = Response 504 (MessageBody ''Processing exceeded the 120s timeout.'')
       \<or> (\<exists>body. response = Response 200 (ReportBody body))"
proof -
  have c: "catchHandler w error = Response 504 (MessageBody ''Processing exceeded the 120s timeout.'')"
    for error
    using assms(2) by (simp add: catchHandler_def buildErrorResponse_def timeoutMessage_def)
  from assms(3) have "tryBlock w repo token start end = Some (response, calls, n)"
    by (simp add: GET_accepted [OF assms(1)])
  then show ?thesis
    by (auto simp: tryBlock_def c split: option.splits sum.splits prod.splits if_splits)
qed

end
